theory Spec2Isabelle
  imports Complex_Main "HOL-Library.Sublist" "HOL-Library.List_Lexorder" "HOL-Library.Char_ord"
    "HOL-Library.Multiset"
begin

section \<open>Python values, exceptions and clocks\<close>

text \<open>
  A naive UTC \<^verbatim>\<open>datetime\<close> is the instant it denotes, counted in microseconds; a
  \<^verbatim>\<open>timedelta\<close> is a difference of two such instants. A Python \<^verbatim>\<open>float\<close> is the real
  number it denotes (rounding, infinities and NaN are outside this model).
\<close>

type_synonym datetime = int
type_synonym timedelta = int

text \<open>
  A datetime that was parsed from text may carry a UTC offset. \<open>Naive t\<close> is the naive
  datetime \<open>t\<close>; \<open>Aware t off\<close> is the instant \<open>t\<close> with the offset \<open>off\<close>.
  Subtracting an offset-aware datetime from a naive one raises \<^verbatim>\<open>TypeError\<close>.
\<close>

datatype pydatetime = Naive datetime | Aware datetime timedelta

definition total_seconds :: "timedelta \<Rightarrow> real" where
  "total_seconds d = real_of_int d / 1000000"

definition timedelta_minutes :: "int \<Rightarrow> timedelta" where
  "timedelta_minutes m = m * 60000000"

definition timedelta_hours :: "int \<Rightarrow> timedelta" where
  "timedelta_hours h = h * 3600000000"

text \<open>
  The exceptions the services raise or let through. \<^verbatim>\<open>ValidationError\<close> (pydantic) and
  \<^verbatim>\<open>JSONDecodeError\<close> (json) are subclasses of \<^verbatim>\<open>ValueError\<close>; \<^verbatim>\<open>HTTPStatusError\<close> and
  \<^verbatim>\<open>RequestError\<close> are httpx's; \<^verbatim>\<open>HTTPException\<close> is FastAPI's, with its status code
  and detail.
\<close>

datatype exn =
    ValueError string
  | ValidationError string
  | JSONDecodeError string
  | KeyError string
  | TypeError string
  | IndexError string
  | AttributeError string
  | ZeroDivisionError
  | HTTPStatusError nat string
  | RequestError string
  | ClientError string
  | HTTPException nat string
  | OtherException string

fun isinstance_ValueError :: "exn \<Rightarrow> bool" where
  "isinstance_ValueError (ValueError m) = True"
| "isinstance_ValueError (ValidationError m) = True"
| "isinstance_ValueError (JSONDecodeError m) = True"
| "isinstance_ValueError e = False"

fun isinstance_HTTPException :: "exn \<Rightarrow> bool" where
  "isinstance_HTTPException (HTTPException st d) = True"
| "isinstance_HTTPException e = False"

text \<open>
  \<^verbatim>\<open>str(e)\<close>: the message. A \<^verbatim>\<open>KeyError\<close> carries the repr of its key; of an
  \<^verbatim>\<open>HTTPException\<close> only the detail is kept (the handlers never print one).
\<close>

fun str_exn :: "exn \<Rightarrow> string" where
  "str_exn (ValueError m) = m"
| "str_exn (ValidationError m) = m"
| "str_exn (JSONDecodeError m) = m"
| "str_exn (KeyError k) = k"
| "str_exn (TypeError m) = m"
| "str_exn (IndexError m) = m"
| "str_exn (AttributeError m) = m"
| "str_exn ZeroDivisionError = ''division by zero''"
| "str_exn (HTTPStatusError st m) = m"
| "str_exn (RequestError m) = m"
| "str_exn (ClientError m) = m"
| "str_exn (HTTPException st d) = d"
| "str_exn (OtherException m) = m"

fun instant_of :: "pydatetime \<Rightarrow> datetime" where
  "instant_of (Naive t) = t"
| "instant_of (Aware t off) = t"

text \<open>\<^verbatim>\<open>now - t\<close> for a naive \<open>now\<close>.\<close>

fun naive_minus :: "datetime \<Rightarrow> pydatetime \<Rightarrow> exn + timedelta" where
  "naive_minus now (Naive t) = Inr (now - t)"
| "naive_minus now (Aware t off) =
     Inl (TypeError (''can'' @ [CHR 0x27] @ ''t subtract offset-naive and offset-aware datetimes''))"

definition and_then :: "exn + 'a \<Rightarrow> ('a \<Rightarrow> exn + 'b) \<Rightarrow> exn + 'b" where
  "and_then m f = (case m of Inl e \<Rightarrow> Inl e | Inr x \<Rightarrow> f x)"

text \<open>
  The values that travel through JSON documents, keyword arguments and DynamoDB items.
  A \<^verbatim>\<open>dict\<close> with string keys is an association list read with \<open>map_of\<close>.
\<close>

datatype pyval =
    PNone
  | PBool bool
  | PInt int
  | PFloat real
  | PStr string
  | PList "pyval list"
  | PDict "(string \<times> pyval) list"
  | PDatetime datetime

definition quoted :: "string \<Rightarrow> string" where
  "quoted k = [CHR 0x27] @ k @ [CHR 0x27]"

text \<open>\<^verbatim>\<open>v[k]\<close> for a string key \<open>k\<close>.\<close>

fun getitem :: "pyval \<Rightarrow> string \<Rightarrow> exn + pyval" where
  "getitem (PDict kvs) k =
     (case map_of kvs k of Some v \<Rightarrow> Inr v | None \<Rightarrow> Inl (KeyError (quoted k)))"
| "getitem v k = Inl (TypeError ''indices must be integers or object is not subscriptable'')"

text \<open>\<^verbatim>\<open>v[0]\<close>.\<close>

fun getitem0 :: "pyval \<Rightarrow> exn + pyval" where
  "getitem0 (PList []) = Inl (IndexError ''list index out of range'')"
| "getitem0 (PList (x # xs)) = Inr x"
| "getitem0 (PStr []) = Inl (IndexError ''string index out of range'')"
| "getitem0 (PStr (ch # chs)) = Inr (PStr [ch])"
| "getitem0 (PDict kvs) = Inl (KeyError ''0'')"
| "getitem0 v = Inl (TypeError ''object is not subscriptable'')"

text \<open>\<^verbatim>\<open>v.get(k, default)\<close>.\<close>

fun dict_get :: "pyval \<Rightarrow> string \<Rightarrow> pyval \<Rightarrow> exn + pyval" where
  "dict_get (PDict kvs) k dflt = Inr (case map_of kvs k of Some v \<Rightarrow> v | None \<Rightarrow> dflt)"
| "dict_get v k dflt = Inl (AttributeError ''object has no attribute get'')"

text \<open>\<^verbatim>\<open>k in v\<close> for a string \<open>k\<close>.\<close>

fun contains :: "string \<Rightarrow> pyval \<Rightarrow> exn + bool" where
  "contains k (PDict kvs) = Inr (map_of kvs k \<noteq> None)"
| "contains k (PList xs) = Inr (PStr k \<in> set xs)"
| "contains k (PStr s) = Inr (sublist k s)"
| "contains k v = Inl (TypeError ''argument is not iterable'')"

text \<open>
  The library functions that read and write text. Their results are not computed by the
  repository's code, so every function that calls one takes them as the record \<open>py\<close>:
  \<^verbatim>\<open>str.lower\<close> (which lower-cases every cased letter of Unicode), \<^verbatim>\<open>datetime.isoformat\<close>, \<^verbatim>\<open>strftime("%Y%m%d_%H%M%S")\<close>, \<^verbatim>\<open>datetime.fromisoformat\<close>,
  \<^verbatim>\<open>datetime.fromtimestamp\<close>, \<^verbatim>\<open>float(s)\<close>, \<^verbatim>\<open>int(s)\<close>, \<^verbatim>\<open>json.dumps\<close>,
  \<^verbatim>\<open>json.loads\<close>, and what pydantic's validators do with a value that is not already of
  the field's type (among them, parsing a datetime from its ISO text).
\<close>

record pylib =
  str_lower :: "string \<Rightarrow> string"
  isoformat :: "pydatetime \<Rightarrow> string"
  strftime_key :: "pydatetime \<Rightarrow> string"
  fromisoformat :: "string \<Rightarrow> exn + datetime"
  fromtimestamp :: "pyval \<Rightarrow> exn + datetime"
  float_of_str :: "string \<Rightarrow> exn + real"
  int_of_str :: "string \<Rightarrow> exn + int"
  json_dumps :: "pyval \<Rightarrow> string"
  json_loads :: "string \<Rightarrow> exn + pyval"
  lax_float :: "pyval \<Rightarrow> exn + real"
  lax_int :: "pyval \<Rightarrow> exn + int"
  lax_bool :: "pyval \<Rightarrow> exn + bool"
  lax_datetime :: "pyval \<Rightarrow> exn + pydatetime"

section \<open>app/models.py\<close>

record WeatherData =
  city :: string
  country :: string
  temperature :: real
  feels_like :: real
  humidity :: int
  pressure :: int
  description :: string
  wind_speed :: real
  wind_direction :: int
  visibility :: int
  clouds :: int
  timestamp :: pydatetime
  sunrise :: "pydatetime option"
  sunset :: "pydatetime option"

record WeatherResponse =
  success :: bool
  data :: "WeatherData option"
  message :: string
  cached :: bool
  cache_age_minutes :: "real option"

record WeatherEvent =
  event_id :: string
  event_city :: string
  event_timestamp :: datetime
  s3_path :: string
  response_time_ms :: real
  event_cached :: bool
  error :: "string option"

record ErrorResponse =
  error_success :: bool
  error_message :: string
  error_code :: "string option"
  details :: "(string \<times> string) list option"

text \<open>
  Constructing a model validates its keyword arguments (pydantic). A value of the field's
  own type is taken as it is (and an \<^verbatim>\<open>int\<close> for a \<^verbatim>\<open>float\<close> field); a string field takes
  nothing but a string; for any other value the library decides. A required field that
  is missing, or a value the library refuses, raises \<^verbatim>\<open>ValidationError\<close>.
\<close>

definition validate_str :: "pyval \<Rightarrow> exn + string" where
  "validate_str v =
     (case v of PStr x \<Rightarrow> Inr x | _ \<Rightarrow> Inl (ValidationError ''Input should be a valid string''))"

definition validate_float :: "pylib \<Rightarrow> pyval \<Rightarrow> exn + real" where
  "validate_float py v =
     (case v of PFloat x \<Rightarrow> Inr x | PInt i \<Rightarrow> Inr (real_of_int i) | _ \<Rightarrow> lax_float py v)"

definition validate_int :: "pylib \<Rightarrow> pyval \<Rightarrow> exn + int" where
  "validate_int py v = (case v of PInt i \<Rightarrow> Inr i | _ \<Rightarrow> lax_int py v)"

definition validate_bool :: "pylib \<Rightarrow> pyval \<Rightarrow> exn + bool" where
  "validate_bool py v = (case v of PBool b \<Rightarrow> Inr b | _ \<Rightarrow> lax_bool py v)"

definition validate_datetime :: "pylib \<Rightarrow> pyval \<Rightarrow> exn + pydatetime" where
  "validate_datetime py v =
     (case v of PDatetime t \<Rightarrow> Inr (Naive t) | _ \<Rightarrow> lax_datetime py v)"

definition required :: "(string \<times> pyval) list \<Rightarrow> string \<Rightarrow> (pyval \<Rightarrow> exn + 'a) \<Rightarrow> exn + 'a" where
  "required kwargs k validate =
     (case map_of kwargs k of
        None \<Rightarrow> Inl (ValidationError (k @ '': Field required''))
      | Some v \<Rightarrow> validate v)"

definition optional :: "(string \<times> pyval) list \<Rightarrow> string \<Rightarrow> (pyval \<Rightarrow> exn + 'a) \<Rightarrow> exn + 'a option" where
  "optional kwargs k validate =
     (case map_of kwargs k of
        None \<Rightarrow> Inr None
      | Some PNone \<Rightarrow> Inr None
      | Some v \<Rightarrow> and_then (validate v) (\<lambda>x. Inr (Some x)))"

text \<open>\<^verbatim>\<open>WeatherData(**kwargs)\<close>\<close>

definition WeatherData_init :: "pylib \<Rightarrow> (string \<times> pyval) list \<Rightarrow> exn + WeatherData" where
  "WeatherData_init py kwargs =
     and_then (required kwargs ''city'' validate_str) (\<lambda>v1.
     and_then (required kwargs ''country'' validate_str) (\<lambda>v2.
     and_then (required kwargs ''temperature'' (validate_float py)) (\<lambda>v3.
     and_then (required kwargs ''feels_like'' (validate_float py)) (\<lambda>v4.
     and_then (required kwargs ''humidity'' (validate_int py)) (\<lambda>v5.
     and_then (required kwargs ''pressure'' (validate_int py)) (\<lambda>v6.
     and_then (required kwargs ''description'' validate_str) (\<lambda>v7.
     and_then (required kwargs ''wind_speed'' (validate_float py)) (\<lambda>v8.
     and_then (required kwargs ''wind_direction'' (validate_int py)) (\<lambda>v9.
     and_then (required kwargs ''visibility'' (validate_int py)) (\<lambda>v10.
     and_then (required kwargs ''clouds'' (validate_int py)) (\<lambda>v11.
     and_then (required kwargs ''timestamp'' (validate_datetime py)) (\<lambda>v12.
     and_then (optional kwargs ''sunrise'' (validate_datetime py)) (\<lambda>v13.
     and_then (optional kwargs ''sunset'' (validate_datetime py)) (\<lambda>v14.
       Inr \<lparr>city = v1, country = v2, temperature = v3, feels_like = v4, humidity = v5,
            pressure = v6, description = v7, wind_speed = v8, wind_direction = v9,
            visibility = v10, clouds = v11, timestamp = v12, sunrise = v13,
            sunset = v14\<rparr>))))))))))))))"

text \<open>
  \<^verbatim>\<open>model_dump(mode='json')\<close> of a \<^verbatim>\<open>WeatherData\<close>, with the three field serializers of
  the class: \<^verbatim>\<open>timestamp\<close> as its ISO text, \<^verbatim>\<open>sunrise\<close> and \<^verbatim>\<open>sunset\<close> as their ISO text
  or \<^verbatim>\<open>None\<close>.
\<close>

definition serialize_optional :: "pylib \<Rightarrow> pydatetime option \<Rightarrow> pyval" where
  "serialize_optional py v = (case v of Some t \<Rightarrow> PStr (isoformat py t) | None \<Rightarrow> PNone)"

definition WeatherData_model_dump :: "pylib \<Rightarrow> WeatherData \<Rightarrow> (string \<times> pyval) list" where
  "WeatherData_model_dump py w =
     [(''city'', PStr (city w)),
      (''country'', PStr (country w)),
      (''temperature'', PFloat (temperature w)),
      (''feels_like'', PFloat (feels_like w)),
      (''humidity'', PInt (humidity w)),
      (''pressure'', PInt (pressure w)),
      (''description'', PStr (description w)),
      (''wind_speed'', PFloat (wind_speed w)),
      (''wind_direction'', PInt (wind_direction w)),
      (''visibility'', PInt (visibility w)),
      (''clouds'', PInt (clouds w)),
      (''timestamp'', PStr (isoformat py (timestamp w))),
      (''sunrise'', serialize_optional py (sunrise w)),
      (''sunset'', serialize_optional py (sunset w))]"

text \<open>\<^verbatim>\<open>WeatherEvent(**kwargs)\<close>; of the timestamp of an event its instant is kept.\<close>

definition WeatherEvent_init :: "pylib \<Rightarrow> (string \<times> pyval) list \<Rightarrow> exn + WeatherEvent" where
  "WeatherEvent_init py kwargs =
     and_then (required kwargs ''event_id'' validate_str) (\<lambda>v1.
     and_then (required kwargs ''city'' validate_str) (\<lambda>v2.
     and_then (required kwargs ''timestamp'' (validate_datetime py)) (\<lambda>v3.
     and_then (required kwargs ''s3_path'' validate_str) (\<lambda>v4.
     and_then (required kwargs ''response_time_ms'' (validate_float py)) (\<lambda>v5.
     and_then (required kwargs ''cached'' (validate_bool py)) (\<lambda>v6.
     and_then (optional kwargs ''error'' validate_str) (\<lambda>v7.
       Inr \<lparr>event_id = v1, event_city = v2, event_timestamp = instant_of v3, s3_path = v4,
            response_time_ms = v5, event_cached = v6, error = v7\<rparr>)))))))"

section \<open>config/settings.py\<close>

record settings =
  s3_bucket_name :: string
  cache_expiry_minutes :: int

section \<open>app/services/weather_service.py\<close>

text \<open>
  What the provider does with the one \<^verbatim>\<open>GET\<close>: the request fails in transport
  (\<^verbatim>\<open>httpx.RequestError\<close>), or a response arrives with a status code and a body that
  \<^verbatim>\<open>response.json()\<close> decodes or rejects. \<^verbatim>\<open>raise_for_status\<close> raises
  \<^verbatim>\<open>HTTPStatusError\<close> for a status that is not a success (200 to 299).
\<close>

record http_response =
  status_code :: nat
  json_body :: "exn + pyval"

definition raise_for_status :: "http_response \<Rightarrow> exn + unit" where
  "raise_for_status response =
     (if 200 \<le> status_code response \<and> status_code response < 300 then Inr ()
      else Inl (HTTPStatusError (status_code response) ''status error''))"

text \<open>The \<^verbatim>\<open>try\<close> body of \<^verbatim>\<open>get_weather_data\<close>; the keyword arguments are evaluated in order.\<close>

definition optional_time :: "pylib \<Rightarrow> pyval \<Rightarrow> string \<Rightarrow> exn + pyval" where
  "optional_time py payload k =
     and_then (getitem payload ''sys'') (\<lambda>sys.
     and_then (contains k sys) (\<lambda>present.
       if present
       then and_then (getitem payload ''sys'') (\<lambda>sys'.
            and_then (getitem sys' k) (\<lambda>v.
            and_then (fromtimestamp py v) (\<lambda>t. Inr (PDatetime t))))
       else Inr PNone))"

definition get_weather_data_try :: "pylib \<Rightarrow> exn + http_response \<Rightarrow> datetime \<Rightarrow> exn + WeatherData" where
  "get_weather_data_try py reply now =
     and_then reply (\<lambda>response.
     and_then (raise_for_status response) (\<lambda>u.
     and_then (json_body response) (\<lambda>payload.
     and_then (getitem payload ''name'') (\<lambda>a1.
     and_then (and_then (getitem payload ''sys'') (\<lambda>d. getitem d ''country'')) (\<lambda>a2.
     and_then (and_then (getitem payload ''main'') (\<lambda>d. getitem d ''temp'')) (\<lambda>a3.
     and_then (and_then (getitem payload ''main'') (\<lambda>d. getitem d ''feels_like'')) (\<lambda>a4.
     and_then (and_then (getitem payload ''main'') (\<lambda>d. getitem d ''humidity'')) (\<lambda>a5.
     and_then (and_then (getitem payload ''main'') (\<lambda>d. getitem d ''pressure'')) (\<lambda>a6.
     and_then (and_then (getitem payload ''weather'') (\<lambda>l.
               and_then (getitem0 l) (\<lambda>d. getitem d ''description''))) (\<lambda>a7.
     and_then (and_then (dict_get payload ''wind'' (PDict [])) (\<lambda>d. dict_get d ''speed'' (PInt 0))) (\<lambda>a8.
     and_then (and_then (dict_get payload ''wind'' (PDict [])) (\<lambda>d. dict_get d ''deg'' (PInt 0))) (\<lambda>a9.
     and_then (dict_get payload ''visibility'' (PInt 0)) (\<lambda>a10.
     and_then (and_then (dict_get payload ''clouds'' (PDict [])) (\<lambda>d. dict_get d ''all'' (PInt 0))) (\<lambda>a11.
     and_then (optional_time py payload ''sunrise'') (\<lambda>a13.
     and_then (optional_time py payload ''sunset'') (\<lambda>a14.
       WeatherData_init py
         [(''city'', a1), (''country'', a2), (''temperature'', a3), (''feels_like'', a4),
          (''humidity'', a5), (''pressure'', a6), (''description'', a7),
          (''wind_speed'', a8), (''wind_direction'', a9), (''visibility'', a10),
          (''clouds'', a11), (''timestamp'', PDatetime now), (''sunrise'', a13),
          (''sunset'', a14)]))))))))))))))))"

text \<open>
  The \<^verbatim>\<open>except\<close> clauses, in the order of the source: a 404 status becomes
  \<^verbatim>\<open>ValueError("City '...' not found")\<close>, any other status error and a transport error
  are raised again, a \<^verbatim>\<open>KeyError\<close> becomes
  \<^verbatim>\<open>ValueError("Invalid weather data format received")\<close>, anything else is raised again.
\<close>

definition get_weather_data :: "pylib \<Rightarrow> exn + http_response \<Rightarrow> datetime \<Rightarrow> string \<Rightarrow> exn + WeatherData" where
  "get_weather_data py reply now c =
     (case get_weather_data_try py reply now of
        Inr weather_data \<Rightarrow> Inr weather_data
      | Inl (HTTPStatusError st m) \<Rightarrow>
          if st = 404 then Inl (ValueError (''City '' @ quoted c @ '' not found''))
          else Inl (HTTPStatusError st m)
      | Inl (RequestError m) \<Rightarrow> Inl (RequestError m)
      | Inl (KeyError k) \<Rightarrow> Inl (ValueError ''Invalid weather data format received'')
      | Inl e \<Rightarrow> Inl e)"

section \<open>app/services/storage_service.py\<close>

text \<open>
  The bucket as the S3 client shows it. \<^verbatim>\<open>list_objects_v2\<close> answers with the objects whose
  key starts with the prefix, in key order, and leaves \<^verbatim>\<open>Contents\<close> out when there is
  none; \<^verbatim>\<open>put_object\<close> replaces the object of that key and stamps it with the store's
  own time. A call can also fail: \<open>list_error\<close>, \<open>get_error\<close> and \<open>put_error\<close> hold the
  exception it then raises.
\<close>

record s3_object =
  Key :: string
  LastModified :: datetime
  Body :: string
  Metadata :: "(string \<times> string) list"

record s3 =
  objects :: "s3_object list"
  list_error :: "exn option"
  get_error :: "exn option"
  put_error :: "exn option"

definition list_objects_v2 :: "s3 \<Rightarrow> string \<Rightarrow> exn + s3_object list option" where
  "list_objects_v2 st pfx =
     (case list_error st of
        Some e \<Rightarrow> Inl e
      | None \<Rightarrow>
          (let found = filter (\<lambda>obj. prefix pfx (Key obj)) (objects st)
           in Inr (if found = [] then None else Some found)))"

definition get_object :: "s3 \<Rightarrow> string \<Rightarrow> exn + string" where
  "get_object st k =
     (case get_error st of
        Some e \<Rightarrow> Inl e
      | None \<Rightarrow>
          (case find (\<lambda>obj. Key obj = k) (objects st) of
             None \<Rightarrow> Inl (ClientError ''NoSuchKey'')
           | Some obj \<Rightarrow> Inr (Body obj)))"

definition put_object ::
  "s3 \<Rightarrow> datetime \<Rightarrow> string \<Rightarrow> string \<Rightarrow> (string \<times> string) list \<Rightarrow> (exn + unit) \<times> s3" where
  "put_object st stored_at k body meta =
     (case put_error st of
        Some e \<Rightarrow> (Inl e, st)
      | None \<Rightarrow>
          (Inr (),
           st\<lparr>objects :=
                insort_key Key
                  \<lparr>Key = k, LastModified = stored_at, Body = body, Metadata = meta\<rparr>
                  (filter (\<lambda>obj. Key obj \<noteq> k) (objects st))\<rparr>))"

text \<open>\<^verbatim>\<open>city.lower().replace(' ', '_')\<close>\<close>

definition normalize_city :: "pylib \<Rightarrow> string \<Rightarrow> string" where
  "normalize_city py c =
     map (\<lambda>ch. if ch = CHR '' '' then CHR ''_'' else ch) (str_lower py c)"

definition generate_file_key :: "pylib \<Rightarrow> string \<Rightarrow> pydatetime \<Rightarrow> string" where
  "generate_file_key py c t =
     ''weather_data/'' @ normalize_city py c @ ''_'' @ strftime_key py t @ ''.json''"

text \<open>
  \<^verbatim>\<open>store_weather_data\<close>: the dictionary of the reading, its remaining datetimes turned
  into ISO text, is dumped as JSON and put under the generated key. A failure is logged
  and raised again.
\<close>

definition datetimes_to_isoformat :: "pylib \<Rightarrow> (string \<times> pyval) list \<Rightarrow> (string \<times> pyval) list" where
  "datetimes_to_isoformat py d =
     map (\<lambda>(k, v). (k, case v of PDatetime t \<Rightarrow> PStr (isoformat py (Naive t)) | _ \<Rightarrow> v)) d"

definition store_weather_data ::
  "pylib \<Rightarrow> settings \<Rightarrow> s3 \<Rightarrow> datetime \<Rightarrow> WeatherData \<Rightarrow> (exn + string) \<times> s3" where
  "store_weather_data py cfg st stored_at weather_data =
     (let file_key = generate_file_key py (city weather_data) (timestamp weather_data);
          data_dict = datetimes_to_isoformat py (WeatherData_model_dump py weather_data);
          json_data = json_dumps py (PDict data_dict)
      in case put_object st stored_at file_key json_data
                [(''city'', city weather_data),
                 (''timestamp'', isoformat py (timestamp weather_data)),
                 (''cached'', ''false'')] of
           (Inl e, st') \<Rightarrow> (Inl e, st')
         | (Inr u, st') \<Rightarrow> (Inr (''s3://'' @ s3_bucket_name cfg @ ''/'' @ file_key), st'))"

text \<open>
  \<^verbatim>\<open>max(xs, key=...)\<close>: the first of the elements whose key is greatest; it raises on an
  empty list.
\<close>

fun max_from :: "('a \<Rightarrow> 'b::linorder) \<Rightarrow> 'a \<Rightarrow> 'a list \<Rightarrow> 'a" where
  "max_from key best [] = best"
| "max_from key best (x # xs) = max_from key (if key best < key x then x else best) xs"

definition py_max :: "('a \<Rightarrow> 'b::linorder) \<Rightarrow> 'a list \<Rightarrow> exn + 'a" where
  "py_max key xs =
     (case xs of
        [] \<Rightarrow> Inl (ValueError ''max() arg is an empty sequence'')
      | x # rest \<Rightarrow> Inr (max_from key x rest))"

text \<open>\<^verbatim>\<open>WeatherData(**json.loads(content))\<close>\<close>

definition read_weather_data :: "pylib \<Rightarrow> string \<Rightarrow> exn + WeatherData" where
  "read_weather_data py content =
     and_then (json_loads py content) (\<lambda>weather_data_dict.
       case weather_data_dict of
         PDict kwargs \<Rightarrow> WeatherData_init py kwargs
       | _ \<Rightarrow> Inl (TypeError ''argument after ** must be a mapping''))"

definition city_prefix :: "pylib \<Rightarrow> string \<Rightarrow> string" where
  "city_prefix py c = ''weather_data/'' @ normalize_city py c @ ''_''"

definition fresh_objects :: "datetime \<Rightarrow> s3_object list \<Rightarrow> s3_object list" where
  "fresh_objects cache_cutoff contents = filter (\<lambda>obj. cache_cutoff < LastModified obj) contents"

text \<open>
  The \<^verbatim>\<open>valid_objects\<close> of a lookup whose listing succeeds: the objects listed for the
  city's prefix, filtered by the loop of lines 134 to 137.
\<close>

definition valid_objects_of ::
  "pylib \<Rightarrow> settings \<Rightarrow> s3 \<Rightarrow> datetime \<Rightarrow> string \<Rightarrow> s3_object list" where
  "valid_objects_of py cfg st now c =
     fresh_objects (now - timedelta_minutes (cache_expiry_minutes cfg))
       (filter (\<lambda>obj. prefix (city_prefix py c) (Key obj)) (objects st))"

text \<open>The \<^verbatim>\<open>try\<close> body of \<^verbatim>\<open>get_cached_weather_data\<close> (lines 118 to 157).\<close>

definition get_cached_weather_data_try ::
  "pylib \<Rightarrow> settings \<Rightarrow> s3 \<Rightarrow> datetime \<Rightarrow> string \<Rightarrow> exn + WeatherData option" where
  "get_cached_weather_data_try py cfg st now c =
     (let cache_cutoff = now - timedelta_minutes (cache_expiry_minutes cfg)
      in and_then (list_objects_v2 st (city_prefix py c)) (\<lambda>response.
           case response of
             None \<Rightarrow> Inr None
           | Some contents \<Rightarrow>
               (let valid_objects = fresh_objects cache_cutoff contents
                in if valid_objects = [] then Inr None
                   else and_then (py_max LastModified valid_objects) (\<lambda>latest_obj.
                        and_then (get_object st (Key latest_obj)) (\<lambda>content.
                        and_then (read_weather_data py content) (\<lambda>weather_data.
                          Inr (Some weather_data)))))))"

text \<open>\<^verbatim>\<open>except Exception as e: logger.warning(...); return None\<close>\<close>

definition get_cached_weather_data ::
  "pylib \<Rightarrow> settings \<Rightarrow> s3 \<Rightarrow> datetime \<Rightarrow> string \<Rightarrow> exn + WeatherData option" where
  "get_cached_weather_data py cfg st now c =
     (case get_cached_weather_data_try py cfg st now c of
        Inl e \<Rightarrow> Inr None
      | Inr found \<Rightarrow> Inr found)"

definition list_recent_files :: "s3 \<Rightarrow> datetime \<Rightarrow> int \<Rightarrow> exn + string list" where
  "list_recent_files st now hours =
     (let cutoff_time = now - timedelta_hours hours
      in case and_then (list_objects_v2 st ''weather_data/'') (\<lambda>response.
                case response of
                  None \<Rightarrow> Inr []
                | Some contents \<Rightarrow>
                    Inr (map Key (filter (\<lambda>obj. cutoff_time < LastModified obj) contents))) of
           Inl e \<Rightarrow> Inr []
         | Inr recent_files \<Rightarrow> Inr recent_files)"

section \<open>app/services/database_service.py\<close>

text \<open>
  The table as the DynamoDB client shows it: its items in the order a scan enumerates
  them, each a dictionary of typed attribute values. \<^verbatim>\<open>scan(Limit=n)\<close> answers with the
  first \<open>n\<close> items of that enumeration, and refuses a limit below 1.
\<close>

datatype attribute_value =
    Attr_S string
  | Attr_N string
  | Attr_BOOL bool
  | Attr_other

type_synonym item = "(string \<times> attribute_value) list"

record dynamodb =
  table_items :: "item list"
  scan_error :: "exn option"

definition scan :: "dynamodb \<Rightarrow> int \<Rightarrow> exn + item list" where
  "scan db limit =
     (case scan_error db of
        Some e \<Rightarrow> Inl e
      | None \<Rightarrow>
          if limit < 1 then Inl (ClientError ''Invalid value for parameter Limit'')
          else Inr (take (nat limit) (table_items db)))"

text \<open>
  One attribute of an item, as the loop of \<^verbatim>\<open>get_recent_events\<close> reads it: the value it
  stores under the key, or nothing for an attribute of another type.
\<close>

fun event_value :: "pylib \<Rightarrow> string \<Rightarrow> attribute_value \<Rightarrow> exn + pyval option" where
  "event_value py k (Attr_S x) =
     (if k = ''timestamp''
      then and_then (fromisoformat py x) (\<lambda>t. Inr (Some (PDatetime t)))
      else Inr (Some (PStr x)))"
| "event_value py k (Attr_N x) =
     (if k = ''response_time_ms''
      then and_then (float_of_str py x) (\<lambda>r. Inr (Some (PFloat r)))
      else and_then (int_of_str py x) (\<lambda>i. Inr (Some (PInt i))))"
| "event_value py k (Attr_BOOL b) = Inr (Some (PBool b))"
| "event_value py k Attr_other = Inr None"

fun event_data_of :: "pylib \<Rightarrow> item \<Rightarrow> exn + (string \<times> pyval) list" where
  "event_data_of py [] = Inr []"
| "event_data_of py ((k, a) # rest) =
     and_then (event_value py k a) (\<lambda>v.
     and_then (event_data_of py rest) (\<lambda>event_data.
       Inr (case v of None \<Rightarrow> event_data | Some x \<Rightarrow> (k, x) # event_data)))"

fun events_of :: "pylib \<Rightarrow> item list \<Rightarrow> exn + WeatherEvent list" where
  "events_of py [] = Inr []"
| "events_of py (it # rest) =
     and_then (and_then (event_data_of py it) (WeatherEvent_init py)) (\<lambda>ev.
     and_then (events_of py rest) (\<lambda>evs. Inr (ev # evs)))"

text \<open>
  \<^verbatim>\<open>events.sort(key=lambda x: x.timestamp, reverse=True)\<close>: a stable sort, latest first;
  events of equal timestamp keep their order.
\<close>

definition sort_latest_first :: "WeatherEvent list \<Rightarrow> WeatherEvent list" where
  "sort_latest_first evs = sort_key (\<lambda>ev. - event_timestamp ev) evs"

definition get_recent_events_try :: "pylib \<Rightarrow> dynamodb \<Rightarrow> int \<Rightarrow> exn + WeatherEvent list" where
  "get_recent_events_try py db limit =
     and_then (scan db limit) (\<lambda>response_items.
     and_then (events_of py response_items) (\<lambda>evs.
       Inr (sort_latest_first evs)))"

definition get_recent_events :: "pylib \<Rightarrow> dynamodb \<Rightarrow> int \<Rightarrow> exn + WeatherEvent list" where
  "get_recent_events py db limit =
     (case get_recent_events_try py db limit of
        Inl e \<Rightarrow> Inr []
      | Inr evs \<Rightarrow> Inr evs)"

section \<open>app/main.py: the request handlers\<close>

text \<open>
  The handlers receive their three services through \<^verbatim>\<open>Depends(get_services)\<close>. A service
  method is what it answers when awaited: a value, or the exception it raises.
  \<^verbatim>\<open>log_weather_event\<close> is called with the keyword arguments of a \<open>log_call\<close>.
\<close>

record log_call =
  log_city :: string
  log_s3_path :: string
  log_response_time_ms :: real
  log_cached :: bool
  log_error :: "string option"

record services =
  svc_get_cached_weather_data :: "string \<Rightarrow> exn + WeatherData option"
  svc_get_weather_data :: "string \<Rightarrow> exn + WeatherData"
  svc_store_weather_data :: "WeatherData \<Rightarrow> exn + string"
  svc_log_weather_event :: "log_call \<Rightarrow> exn + string"
  svc_get_recent_events :: "int \<Rightarrow> exn + WeatherEvent list"
  svc_list_recent_files :: "int \<Rightarrow> exn + string list"

text \<open>
  The clock readings of one request: \<^verbatim>\<open>time.time()\<close> on entry and when the response time
  is computed, and \<^verbatim>\<open>datetime.utcnow()\<close> where the cache age is computed.
\<close>

record clock =
  time_start :: real
  time_end :: real
  utcnow :: datetime

definition response_time :: "clock \<Rightarrow> real" where
  "response_time clk = (time_end clk - time_start clk) * 1000"

text \<open>
  What a request leaves behind: each call of \<^verbatim>\<open>log_weather_event\<close>, with the event id it
  returned or, when it raised, the warning written in its place.
\<close>

datatype trace_entry =
    Logged log_call string
  | Log_failed log_call string

fun attempted :: "trace_entry \<Rightarrow> log_call" where
  "attempted (Logged call eid) = call"
| "attempted (Log_failed call warning) = call"

text \<open>
  \<^verbatim>\<open>try: await db_svc.log_weather_event(...) except Exception as e: logger.warning(...)\<close>
\<close>

definition try_log :: "services \<Rightarrow> log_call \<Rightarrow> string \<Rightarrow> trace_entry list" where
  "try_log svc call warning =
     (case svc_log_weather_event svc call of
        Inr eid \<Rightarrow> [Logged call eid]
      | Inl e \<Rightarrow> [Log_failed call (warning @ str_exn e)])"

text \<open>The body of the outer \<^verbatim>\<open>try\<close> of \<^verbatim>\<open>get_weather\<close> (lines 115 to 217).\<close>

definition get_weather_try ::
  "services \<Rightarrow> clock \<Rightarrow> string \<Rightarrow> (exn + WeatherResponse) \<times> trace_entry list" where
  "get_weather_try svc clk c =
     (case svc_get_cached_weather_data svc c of
        Inl e \<Rightarrow> (Inl e, [])
      | Inr (Some cached_data) \<Rightarrow>
          (case naive_minus (utcnow clk) (timestamp cached_data) of
             Inl e \<Rightarrow> (Inl e, [])
           | Inr cache_age \<Rightarrow>
               (let age_minutes = total_seconds cache_age / 60;
                    tr = try_log svc
                           \<lparr>log_city = c, log_s3_path = ''cached'',
                            log_response_time_ms = response_time clk,
                            log_cached = True, log_error = None\<rparr>
                           ''Failed to log cached event: ''
                in (Inr \<lparr>success = True, data = Some cached_data,
                         message = ''Weather data for '' @ c @ '' (cached)'',
                         cached = True, cache_age_minutes = Some age_minutes\<rparr>, tr)))
      | Inr None \<Rightarrow>
          (case svc_get_weather_data svc c of
             Inl e \<Rightarrow>
               (let tr = try_log svc
                           \<lparr>log_city = c, log_s3_path = '''',
                            log_response_time_ms = response_time clk,
                            log_cached = False, log_error = Some (str_exn e)\<rparr>
                           ''Failed to log error event: ''
                in if isinstance_ValueError e
                   then (Inl (HTTPException 404 (str_exn e)), tr)
                   else (Inl (HTTPException 503 ''Weather service temporarily unavailable''), tr))
           | Inr weather_data \<Rightarrow>
               (let path = (case svc_store_weather_data svc weather_data of
                              Inr p \<Rightarrow> p
                            | Inl e \<Rightarrow> ''storage_failed'');
                    tr = try_log svc
                           \<lparr>log_city = c, log_s3_path = path,
                            log_response_time_ms = response_time clk,
                            log_cached = False, log_error = None\<rparr>
                           ''Failed to log successful event: ''
                in (Inr \<lparr>success = True, data = Some weather_data,
                         message = ''Current weather data for '' @ c,
                         cached = False, cache_age_minutes = None\<rparr>, tr))))"

text \<open>
  The handler: an \<^verbatim>\<open>HTTPException\<close> raised in the body is raised again as it is; any other
  exception is logged as an error event and answered with status 500.
\<close>

definition get_weather ::
  "services \<Rightarrow> clock \<Rightarrow> string \<Rightarrow> (exn + WeatherResponse) \<times> trace_entry list" where
  "get_weather svc clk c =
     (case get_weather_try svc clk c of
        (Inr r, tr) \<Rightarrow> (Inr r, tr)
      | (Inl e, tr) \<Rightarrow>
          if isinstance_HTTPException e then (Inl e, tr)
          else (Inl (HTTPException 500 ''Internal server error''),
                tr @ try_log svc
                       \<lparr>log_city = c, log_s3_path = '''',
                        log_response_time_ms = response_time clk,
                        log_cached = False, log_error = Some (str_exn e)\<rparr>
                       ''Failed to log error event: ''))"

text \<open>
  \<^verbatim>\<open>get_stats\<close>. A Python division raises \<^verbatim>\<open>ZeroDivisionError\<close> on a zero divisor;
  \<^verbatim>\<open>if event.error\<close> holds for an error text that is neither \<^verbatim>\<open>None\<close> nor empty;
  \<^verbatim>\<open>round(x, 2)\<close> rounds to two decimals, a tie to the even neighbour.
\<close>

definition py_truediv :: "real \<Rightarrow> real \<Rightarrow> exn + real" where
  "py_truediv a b = (if b = 0 then Inl ZeroDivisionError else Inr (a / b))"

definition truthy :: "string option \<Rightarrow> bool" where
  "truthy v = (case v of None \<Rightarrow> False | Some x \<Rightarrow> x \<noteq> [])"

definition round_half_even :: "real \<Rightarrow> int" where
  "round_half_even x =
     (let f = \<lfloor>x\<rfloor>; d = x - real_of_int f
      in if d < 1 / 2 then f else if 1 / 2 < d then f + 1 else if even f then f else f + 1)"

definition round2 :: "real \<Rightarrow> real" where
  "round2 x = real_of_int (round_half_even (x * 100)) / 100"

record stats =
  total_requests_24h :: int
  cached_requests :: int
  cache_hit_rate :: real
  error_requests :: int
  error_rate :: real
  avg_response_time_ms :: real
  files_stored_24h :: int

definition compute_stats :: "WeatherEvent list \<Rightarrow> string list \<Rightarrow> exn + stats" where
  "compute_stats events recent_files =
     (let total_requests = int (length events);
          n_cached = int (length (filter event_cached events));
          n_error = int (length (filter (\<lambda>ev. truthy (error ev)) events))
      in and_then (if 0 < total_requests
                   then py_truediv (sum_list (map response_time_ms events)) (real_of_int total_requests)
                   else Inr 0) (\<lambda>avg_response_time.
         and_then (if 0 < total_requests
                   then py_truediv (real_of_int n_cached) (real_of_int total_requests)
                   else Inr 0) (\<lambda>hit_rate.
         and_then (if 0 < total_requests
                   then py_truediv (real_of_int n_error) (real_of_int total_requests)
                   else Inr 0) (\<lambda>err_rate.
           Inr \<lparr>total_requests_24h = total_requests,
                cached_requests = n_cached,
                cache_hit_rate = hit_rate,
                error_requests = n_error,
                error_rate = err_rate,
                avg_response_time_ms = round2 avg_response_time,
                files_stored_24h = int (length recent_files)\<rparr>))))"

definition get_stats :: "services \<Rightarrow> exn + stats" where
  "get_stats svc =
     (case and_then (svc_get_recent_events svc 100) (\<lambda>events.
           and_then (svc_list_recent_files svc 24) (\<lambda>recent_files.
             compute_stats events recent_files)) of
        Inl e \<Rightarrow> Inl (HTTPException 500 ''Failed to retrieve statistics'')
      | Inr result \<Rightarrow> Inr result)"

text \<open>\<^verbatim>\<open>global_exception_handler\<close>: the JSON response for an exception no handler caught.\<close>

record JSONResponse =
  response_status :: nat
  content :: ErrorResponse

definition global_exception_handler :: "exn \<Rightarrow> JSONResponse" where
  "global_exception_handler exc =
     \<lparr>response_status = 500,
      content = \<lparr>error_success = False, error_message = ''Internal server error'',
                 error_code = None, details = Some [(''error'', str_exn exc)]\<rparr>\<rparr>"

text \<open>
  The services of the running application, built from the three service classes over
  the provider's reply, the bucket, the table and the clock readings of the calls.
\<close>

record world =
  provider_reply :: "exn + http_response"
  bucket :: s3
  table :: dynamodb
  fetch_time :: datetime
  lookup_time :: datetime
  stored_at_time :: datetime
  stats_time :: datetime

definition app_services ::
  "pylib \<Rightarrow> settings \<Rightarrow> world \<Rightarrow> (log_call \<Rightarrow> exn + string) \<Rightarrow> services" where
  "app_services py cfg w log_event =
     \<lparr>svc_get_cached_weather_data = get_cached_weather_data py cfg (bucket w) (lookup_time w),
      svc_get_weather_data = get_weather_data py (provider_reply w) (fetch_time w),
      svc_store_weather_data =
        (\<lambda>weather_data. fst (store_weather_data py cfg (bucket w) (stored_at_time w) weather_data)),
      svc_log_weather_event = log_event,
      svc_get_recent_events = get_recent_events py (table w),
      svc_list_recent_files = list_recent_files (bucket w) (stats_time w)\<rparr>"

section \<open>Worked examples\<close>

text \<open>
  The values on which the theorems below are evaluated: a reading of London taken at
  00:10:00 on 1 January 1970, the document and the JSON text it is stored as, the
  provider's payload it is parsed from, buckets and tables, and \<open>py0\<close>, which
  answers as the library does (on a machine whose local time is UTC) on the instants,
  texts and documents of these examples and refuses every other text. Its \<^verbatim>\<open>lower\<close>
  lower-cases the letters A to Z, as the library does on ASCII text.
\<close>

definition lower_char :: "char \<Rightarrow> char" where
  "lower_char ch =
     (case map_of (zip ''ABCDEFGHIJKLMNOPQRSTUVWXYZ'' ''abcdefghijklmnopqrstuvwxyz'') ch of
        Some l \<Rightarrow> l
      | None \<Rightarrow> ch)"

definition cfg0 :: settings where
  "cfg0 = \<lparr>s3_bucket_name = ''weather-data-bucket'', cache_expiry_minutes = 5\<rparr>"

definition london_reading :: WeatherData where
  "london_reading =
     \<lparr>city = ''London'', country = ''GB'', temperature = 15.5, feels_like = 14.2,
      humidity = 78, pressure = 1013, description = ''partly cloudy'', wind_speed = 3.2,
      wind_direction = 220, visibility = 10000, clouds = 25, timestamp = Naive 600000000,
      sunrise = Some (Naive 21600000000), sunset = None\<rparr>"

definition document_with :: "string \<Rightarrow> (string \<times> pyval) list" where
  "document_with ts =
     [(''city'', PStr ''London''), (''country'', PStr ''GB''),
      (''temperature'', PFloat 15.5), (''feels_like'', PFloat 14.2),
      (''humidity'', PInt 78), (''pressure'', PInt 1013),
      (''description'', PStr ''partly cloudy''), (''wind_speed'', PFloat 3.2),
      (''wind_direction'', PInt 220), (''visibility'', PInt 10000), (''clouds'', PInt 25),
      (''timestamp'', PStr ts),
      (''sunrise'', PStr ''1970-01-01T06:00:00''), (''sunset'', PNone)]"

definition london_document :: "(string \<times> pyval) list" where
  "london_document = document_with ''1970-01-01T00:10:00''"

definition json_member :: "string \<Rightarrow> string \<Rightarrow> string" where
  "json_member k v = [CHR 0x0A] @ ''  '' @ [CHR 0x22] @ k @ [CHR 0x22] @ '': '' @ v"

definition json_string :: "string \<Rightarrow> string" where
  "json_string x = [CHR 0x22] @ x @ [CHR 0x22]"

definition json_with :: "string \<Rightarrow> string" where
  "json_with ts =
     ''{'' @ json_member ''city'' (json_string ''London'') @ '',''
     @ json_member ''country'' (json_string ''GB'') @ '',''
     @ json_member ''temperature'' ''15.5'' @ '',''
     @ json_member ''feels_like'' ''14.2'' @ '',''
     @ json_member ''humidity'' ''78'' @ '',''
     @ json_member ''pressure'' ''1013'' @ '',''
     @ json_member ''description'' (json_string ''partly cloudy'') @ '',''
     @ json_member ''wind_speed'' ''3.2'' @ '',''
     @ json_member ''wind_direction'' ''220'' @ '',''
     @ json_member ''visibility'' ''10000'' @ '',''
     @ json_member ''clouds'' ''25'' @ '',''
     @ json_member ''timestamp'' (json_string ts) @ '',''
     @ json_member ''sunrise'' (json_string ''1970-01-01T06:00:00'') @ '',''
     @ json_member ''sunset'' ''null'' @ [CHR 0x0A] @ ''}''"

definition london_json :: string where
  "london_json = json_with ''1970-01-01T00:10:00''"

text \<open>
  The same reading as another writer could have stored it, with a UTC offset in its
  timestamp.
\<close>

definition aware_reading :: WeatherData where
  "aware_reading = london_reading\<lparr>timestamp := Aware 600000000 0\<rparr>"

definition aware_json :: string where
  "aware_json = json_with ''1970-01-01T00:10:00+00:00''"

definition parse_iso0 :: "string \<Rightarrow> datetime option" where
  "parse_iso0 x =
     (if x = ''1970-01-01T00:10:00'' then Some 600000000
      else if x = ''1970-01-01T00:20:00'' then Some 1200000000
      else if x = ''1970-01-01T06:00:00'' then Some 21600000000
      else None)"

definition parse_datetime0 :: "string \<Rightarrow> pydatetime option" where
  "parse_datetime0 x =
     (if x = ''1970-01-01T00:10:00+00:00'' then Some (Aware 600000000 0)
      else map_option Naive (parse_iso0 x))"

definition py0 :: pylib where
  "py0 =
     \<lparr>str_lower = map lower_char,
      isoformat = (\<lambda>t. if t = Naive 600000000 then ''1970-01-01T00:10:00''
                       else if t = Naive 1200000000 then ''1970-01-01T00:20:00''
                       else if t = Naive 21600000000 then ''1970-01-01T06:00:00''
                       else if t = Aware 600000000 0 then ''1970-01-01T00:10:00+00:00''
                       else ''1970-01-01T00:00:00''),
      strftime_key = (\<lambda>t. if instant_of t = 600000000 then ''19700101_001000''
                          else if instant_of t = 1200000000 then ''19700101_002000''
                          else ''19700101_000000''),
      fromisoformat = (\<lambda>x. case parse_iso0 x of
                             Some t \<Rightarrow> Inr t
                           | None \<Rightarrow> Inl (ValueError ''Invalid isoformat string'')),
      fromtimestamp = (\<lambda>v. case v of
                             PInt i \<Rightarrow> Inr (i * 1000000)
                           | _ \<Rightarrow> Inl (TypeError ''an integer is required'')),
      float_of_str = (\<lambda>x. if x = ''50.5'' then Inr 50.5
                          else if x = ''150'' then Inr 150
                          else Inl (ValueError ''could not convert string to float'')),
      int_of_str = (\<lambda>x. Inl (ValueError ''invalid literal for int()'')),
      json_dumps = (\<lambda>v. if v = PDict london_document then london_json else ''null''),
      json_loads = (\<lambda>x. if x = london_json then Inr (PDict london_document)
                        else if x = aware_json
                        then Inr (PDict (document_with ''1970-01-01T00:10:00+00:00''))
                        else Inl (JSONDecodeError ''Expecting value'')),
      lax_float = (\<lambda>v. Inl (ValidationError ''Input should be a valid number'')),
      lax_int = (\<lambda>v. Inl (ValidationError ''Input should be a valid integer'')),
      lax_bool = (\<lambda>v. Inl (ValidationError ''Input should be a valid boolean'')),
      lax_datetime = (\<lambda>v. case v of
                            PStr x \<Rightarrow> (case parse_datetime0 x of
                                         Some t \<Rightarrow> Inr t
                                       | None \<Rightarrow> Inl (ValidationError ''Input should be a valid datetime''))
                          | _ \<Rightarrow> Inl (ValidationError ''Input should be a valid datetime''))\<rparr>"

definition london_payload :: pyval where
  "london_payload =
     PDict [(''name'', PStr ''London''),
            (''sys'', PDict [(''country'', PStr ''GB''), (''sunrise'', PInt 21600)]),
            (''main'', PDict [(''temp'', PFloat 15.5), (''feels_like'', PFloat 14.2),
                             (''humidity'', PInt 78), (''pressure'', PInt 1013)]),
            (''weather'', PList [PDict [(''description'', PStr ''partly cloudy'')]]),
            (''wind'', PDict [(''speed'', PFloat 3.2), (''deg'', PInt 220)]),
            (''visibility'', PInt 10000),
            (''clouds'', PDict [(''all'', PInt 25)])]"

definition empty_bucket :: s3 where
  "empty_bucket = \<lparr>objects = [], list_error = None, get_error = None, put_error = None\<rparr>"

definition london_bucket :: s3 where
  "london_bucket =
     \<lparr>objects =
        [\<lparr>Key = ''weather_data/london_19700101_000100.json'', LastModified = 62000000,
          Body = ''{}'', Metadata = []\<rparr>,
         \<lparr>Key = ''weather_data/london_19700101_000800.json'', LastModified = 482000000,
          Body = ''{}'', Metadata = []\<rparr>,
         \<lparr>Key = ''weather_data/london_19700101_001000.json'', LastModified = 602000000,
          Body = london_json, Metadata = []\<rparr>,
         \<lparr>Key = ''weather_data/paris_19700101_001100.json'', LastModified = 662000000,
          Body = ''{}'', Metadata = []\<rparr>],
      list_error = None, get_error = None, put_error = None\<rparr>"

definition aware_bucket :: s3 where
  "aware_bucket =
     \<lparr>objects =
        [\<lparr>Key = ''weather_data/london_19700101_001000.json'', LastModified = 602000000,
          Body = aware_json, Metadata = []\<rparr>],
      list_error = None, get_error = None, put_error = None\<rparr>"

definition empty_table :: dynamodb where
  "empty_table = \<lparr>table_items = [], scan_error = None\<rparr>"

definition world_of :: "exn + http_response \<Rightarrow> s3 \<Rightarrow> dynamodb \<Rightarrow> world" where
  "world_of reply st db =
     \<lparr>provider_reply = reply, bucket = st, table = db, fetch_time = 600000000,
      lookup_time = 720000000, stored_at_time = 602000000, stats_time = 720000000\<rparr>"

definition log_ok :: "log_call \<Rightarrow> exn + string" where
  "log_ok call = Inr ''5b1c9f0e-event''"

definition clock0 :: clock where
  "clock0 = \<lparr>time_start = 10, time_end = 10.25, utcnow = 720000000\<rparr>"

definition london_ok :: "exn + http_response" where
  "london_ok = Inr \<lparr>status_code = 200, json_body = Inr london_payload\<rparr>"






definition broken_bucket :: s3 where
  "broken_bucket = london_bucket\<lparr>list_error := Some (ClientError ''connection refused'')\<rparr>"

definition provider_down :: "exn + http_response" where
  "provider_down = Inr \<lparr>status_code = 500, json_body = Inl (JSONDecodeError ''Expecting value'')\<rparr>"

section \<open>Evaluation of the examples\<close>

lemma model_dump_london: "WeatherData_model_dump py0 london_reading = london_document"
  by (simp add: WeatherData_model_dump_def py0_def london_reading_def london_document_def
      document_with_def serialize_optional_def)

lemma read_london: "read_weather_data py0 london_json = Inr london_reading"
  by (simp add: read_weather_data_def py0_def and_then_def WeatherData_init_def required_def
      optional_def london_document_def document_with_def validate_str_def validate_float_def
      validate_int_def validate_datetime_def parse_iso0_def parse_datetime0_def
      london_reading_def)

lemma json_texts_differ: "aware_json \<noteq> london_json"
  by (simp add: aware_json_def london_json_def json_with_def json_member_def json_string_def)

lemma read_aware: "read_weather_data py0 aware_json = Inr aware_reading"
  by (simp add: read_weather_data_def py0_def json_texts_differ and_then_def
      WeatherData_init_def required_def optional_def document_with_def validate_str_def
      validate_float_def validate_int_def validate_datetime_def parse_iso0_def
      parse_datetime0_def aware_reading_def london_reading_def)

lemma fetch_london:
  "get_weather_data py0 (Inr \<lparr>status_code = 200, json_body = Inr london_payload\<rparr>) 600000000 ''London''
     = Inr london_reading"
  by (simp add: get_weather_data_def get_weather_data_try_def raise_for_status_def and_then_def
      london_payload_def optional_time_def py0_def WeatherData_init_def required_def
      optional_def validate_str_def validate_float_def validate_int_def
      validate_datetime_def london_reading_def)

lemma prefix_london: "city_prefix py0 ''London'' = ''weather_data/london_''"
  by (simp add: city_prefix_def normalize_city_def py0_def lower_char_def)

lemma prefix_new_york: "city_prefix py0 ''New York'' = ''weather_data/new_york_''"
  by (simp add: city_prefix_def normalize_city_def py0_def lower_char_def)

lemma valid_london:
  "valid_objects_of py0 cfg0 london_bucket 720000000 ''London'' =
     [\<lparr>Key = ''weather_data/london_19700101_000800.json'', LastModified = 482000000,
       Body = ''{}'', Metadata = []\<rparr>,
      \<lparr>Key = ''weather_data/london_19700101_001000.json'', LastModified = 602000000,
       Body = london_json, Metadata = []\<rparr>]"
  by (simp add: valid_objects_of_def fresh_objects_def prefix_london cfg0_def london_bucket_def
      timedelta_minutes_def)

lemma lookup_london:
  "get_cached_weather_data py0 cfg0 london_bucket 720000000 ''London'' = Inr (Some london_reading)"
  by (simp add: get_cached_weather_data_def get_cached_weather_data_try_def list_objects_v2_def
      fresh_objects_def prefix_london cfg0_def london_bucket_def timedelta_minutes_def
      py_max_def get_object_def and_then_def read_london Let_def)

lemma lookup_aware:
  "get_cached_weather_data py0 cfg0 aware_bucket 720000000 ''London'' = Inr (Some aware_reading)"
  by (simp add: get_cached_weather_data_def get_cached_weather_data_try_def list_objects_v2_def
      fresh_objects_def prefix_london cfg0_def aware_bucket_def timedelta_minutes_def
      py_max_def get_object_def and_then_def read_aware Let_def)

lemma lookup_empty:
  "get_cached_weather_data py cfg empty_bucket now c = Inr None"
  by (simp add: get_cached_weather_data_def get_cached_weather_data_try_def list_objects_v2_def
      empty_bucket_def and_then_def)



section \<open>Properties of the request handler\<close>

text \<open>
  On a cache miss with a failed fetch, \<^verbatim>\<open>get_weather\<close> logs one event with an empty
  location and the text of the exception, and answers 404 with that text when the
  exception is a \<^verbatim>\<open>ValueError\<close>, 503 with the fixed text otherwise. The service raises
  the \<^verbatim>\<open>ValueError\<close> of an unknown city when the provider answers 404, and lets any other
  status error and every transport error through.
\<close>

lemma fetch_failure_responses:
  assumes "svc_get_cached_weather_data svc c = Inr None"
    and "svc_get_weather_data svc c = Inl e"
  shows "fst (get_weather svc clk c) =
           Inl (if isinstance_ValueError e then HTTPException 404 (str_exn e)
                else HTTPException 503 ''Weather service temporarily unavailable'')
       \<and> map attempted (snd (get_weather svc clk c)) =
           [\<lparr>log_city = c, log_s3_path = '''',
             log_response_time_ms = response_time clk,
             log_cached = False, log_error = Some (str_exn e)\<rparr>]"
  using assms
  by (simp add: get_weather_def get_weather_try_def try_log_def Let_def split: sum.splits)

lemma provider_not_found:
  "get_weather_data py (Inr \<lparr>status_code = 404, json_body = b\<rparr>) now c =
     Inl (ValueError (''City '' @ quoted c @ '' not found''))"
  by (simp add: get_weather_data_def get_weather_data_try_def raise_for_status_def and_then_def)

lemma provider_unavailable:
  assumes "st \<noteq> 404" and "st < 200 \<or> 300 \<le> st"
  shows "get_weather_data py (Inr \<lparr>status_code = st, json_body = b\<rparr>) now c =
           Inl (HTTPStatusError st ''status error'')"
proof -
  have "raise_for_status \<lparr>status_code = st, json_body = b\<rparr> =
          Inl (HTTPStatusError st ''status error'')"
    using assms(2) by (auto simp: raise_for_status_def)
  then show ?thesis
    using assms(1) by (simp add: get_weather_data_def get_weather_data_try_def and_then_def)
qed

lemma provider_unreachable:
  "get_weather_data py (Inl (RequestError m)) now c = Inl (RequestError m)"
  by (simp add: get_weather_data_def get_weather_data_try_def and_then_def)

text \<open>
  Claim C1, at a payload without its required fields. The provider answers 200 with a
  document that has no \<^verbatim>\<open>name\<close>. \<^verbatim>\<open>get_weather_data\<close> turns the \<^verbatim>\<open>KeyError\<close> into
  \<^verbatim>\<open>ValueError("Invalid weather data format received")\<close>, and \<^verbatim>\<open>get_weather\<close>, whose
  \<^verbatim>\<open>except ValueError\<close> clause is the one commented "City not found", answers with status
  404 and that text, not with 503 and the generic message.
\<close>

theorem malformed_payload_answers_404:
  "get_weather_data py (Inr \<lparr>status_code = 200, json_body = Inr (PDict [(''cod'', PInt 200)])\<rparr>)
       now ''Paris'' =
     Inl (ValueError ''Invalid weather data format received'')
   \<and> fst (get_weather
         (app_services py cfg
            (world_of (Inr \<lparr>status_code = 200, json_body = Inr (PDict [(''cod'', PInt 200)])\<rparr>)
               empty_bucket tb)
            lg)
         clk ''Paris'') =
     Inl (HTTPException 404 ''Invalid weather data format received'')"
  by (simp add: get_weather_def get_weather_try_def app_services_def world_of_def lookup_empty
      get_weather_data_def get_weather_data_try_def raise_for_status_def and_then_def Let_def
      quoted_def)

lemma fst_get_weather_try_log:
  "fst (get_weather_try (svc\<lparr>svc_log_weather_event := l\<rparr>) clk c) = fst (get_weather_try svc clk c)"
  by (simp add: get_weather_try_def Let_def split: sum.splits option.splits)

text \<open>
  Claim C2. Whatever \<^verbatim>\<open>log_weather_event\<close> does when it is called (return an event id or
  raise), the response or \<^verbatim>\<open>HTTPException\<close> that \<^verbatim>\<open>get_weather\<close> delivers is the same:
  two runs that differ only in the behaviour of the event log end in the same outcome,
  on every path (cache hit, fresh fetch, 404, 503 and 500).
\<close>

theorem log_failure_keeps_outcome:
  "fst (get_weather (svc\<lparr>svc_log_weather_event := l1\<rparr>) clk c) =
   fst (get_weather (svc\<lparr>svc_log_weather_event := l2\<rparr>) clk c)"
proof -
  have "fst (get_weather (svc\<lparr>svc_log_weather_event := l\<rparr>) clk c) =
        (case fst (get_weather_try svc clk c) of
           Inr r \<Rightarrow> Inr r
         | Inl e \<Rightarrow> if isinstance_HTTPException e then Inl e
                    else Inl (HTTPException 500 ''Internal server error''))" for l
    using fst_get_weather_try_log [where svc=svc and l=l and clk=clk and c=c]
    by (cases "get_weather_try (svc\<lparr>svc_log_weather_event := l\<rparr>) clk c")
       (auto simp: get_weather_def split: sum.splits)
  then show ?thesis by simp
qed

text \<open>
  Claim C3. When the cache lookup misses, the fetch succeeds and \<^verbatim>\<open>store_weather_data\<close>
  raises, \<^verbatim>\<open>get_weather\<close> still answers with a success response that carries the fresh
  reading and \<^verbatim>\<open>cached=False\<close>. It calls \<^verbatim>\<open>log_weather_event\<close> once, with the location
  \<^verbatim>\<open>"storage_failed"\<close>, \<^verbatim>\<open>cached=False\<close> and no error: the event is logged under the id
  that call returns, and when the call raises only the warning is left.
\<close>

theorem storage_failure_keeps_success:
  assumes "svc_get_cached_weather_data svc c = Inr None"
    and "svc_get_weather_data svc c = Inr weather_data"
    and "svc_store_weather_data svc weather_data = Inl e"
  shows "fst (get_weather svc clk c) =
           Inr \<lparr>success = True, data = Some weather_data,
                message = ''Current weather data for '' @ c,
                cached = False, cache_age_minutes = None\<rparr>
       \<and> snd (get_weather svc clk c) =
           (case svc_log_weather_event svc
                   \<lparr>log_city = c, log_s3_path = ''storage_failed'',
                    log_response_time_ms = response_time clk,
                    log_cached = False, log_error = None\<rparr> of
              Inr eid \<Rightarrow>
                [Logged \<lparr>log_city = c, log_s3_path = ''storage_failed'',
                         log_response_time_ms = response_time clk,
                         log_cached = False, log_error = None\<rparr> eid]
            | Inl failure \<Rightarrow>
                [Log_failed \<lparr>log_city = c, log_s3_path = ''storage_failed'',
                             log_response_time_ms = response_time clk,
                             log_cached = False, log_error = None\<rparr>
                   (''Failed to log successful event: '' @ str_exn failure)])"
  using assms
  by (simp add: get_weather_def get_weather_try_def try_log_def Let_def split: sum.splits)

theorem storage_failure_keeps_success_witness:
  "fst (get_weather
          (app_services py0 cfg0
             (world_of london_ok (empty_bucket\<lparr>put_error := Some (ClientError ''upload failed'')\<rparr>)
                empty_table) log_ok)
          clock0 ''London'') =
     Inr \<lparr>success = True, data = Some london_reading,
          message = ''Current weather data for London'', cached = False,
          cache_age_minutes = None\<rparr>
   \<and> snd (get_weather
          (app_services py0 cfg0
             (world_of london_ok (empty_bucket\<lparr>put_error := Some (ClientError ''upload failed'')\<rparr>)
                empty_table) log_ok)
          clock0 ''London'') =
     [Logged \<lparr>log_city = ''London'', log_s3_path = ''storage_failed'',
              log_response_time_ms = 250, log_cached = False, log_error = None\<rparr>
        ''5b1c9f0e-event'']"
proof -
  let ?svc = "app_services py0 cfg0
             (world_of london_ok (empty_bucket\<lparr>put_error := Some (ClientError ''upload failed'')\<rparr>)
                empty_table) log_ok"
  have miss: "svc_get_cached_weather_data ?svc ''London'' = Inr None"
    by (simp add: app_services_def world_of_def get_cached_weather_data_def
        get_cached_weather_data_try_def list_objects_v2_def empty_bucket_def and_then_def)
  have fetched: "svc_get_weather_data ?svc ''London'' = Inr london_reading"
    by (simp add: app_services_def world_of_def london_ok_def fetch_london)
  have failed: "svc_store_weather_data ?svc london_reading = Inl (ClientError ''upload failed'')"
    by (simp add: app_services_def world_of_def store_weather_data_def put_object_def
        empty_bucket_def Let_def)
  have logged: "svc_log_weather_event ?svc = log_ok"
    by (simp add: app_services_def)
  show ?thesis
    using storage_failure_keeps_success [OF miss fetched failed, of clock0]
    unfolding logged by (simp add: response_time_def clock0_def log_ok_def)
qed

text \<open>
  A reading that \<^verbatim>\<open>get_weather_data\<close> returns has the naive \<^verbatim>\<open>datetime.utcnow()\<close> of the
  fetch as its timestamp.
\<close>

lemma and_then_Inr: "and_then m f = Inr y \<longleftrightarrow> (\<exists>x. m = Inr x \<and> f x = Inr y)"
  by (cases m) (simp_all add: and_then_def)

lemma WeatherData_init_timestamp:
  assumes "WeatherData_init py kwargs = Inr w"
    and "map_of kwargs ''timestamp'' = Some (PDatetime t)"
  shows "timestamp w = Naive t"
  using assms
  by (auto simp: WeatherData_init_def and_then_Inr required_def validate_datetime_def)

lemma fetched_reading_is_naive:
  assumes "get_weather_data py reply now c = Inr w"
  shows "timestamp w = Naive now"
proof -
  from assms have "get_weather_data_try py reply now = Inr w"
    by (auto simp: get_weather_data_def split: sum.splits exn.splits if_splits)
  then obtain kwargs where "WeatherData_init py kwargs = Inr w"
    and "map_of kwargs ''timestamp'' = Some (PDatetime now)"
    by (auto simp: get_weather_data_try_def and_then_Inr)
  then show ?thesis by (rule WeatherData_init_timestamp)
qed

text \<open>
  Claim C4, as amended. When the cache lookup finds a reading whose \<^verbatim>\<open>timestamp\<close> is a
  naive datetime, the cache age is the clock reading \<^verbatim>\<open>utcnow\<close> minus that timestamp (the
  capture time of the reading), in minutes; the response carries the stored reading,
  \<^verbatim>\<open>success=True\<close>, \<^verbatim>\<open>cached=True\<close> and that age. \<^verbatim>\<open>log_weather_event\<close> is called once,
  with the location \<^verbatim>\<open>"cached"\<close>, \<^verbatim>\<open>cached=True\<close> and no error: the event is logged under
  the id that call returns, and when the call raises only the warning is left.
\<close>

theorem cache_hit_response:
  assumes "svc_get_cached_weather_data svc c = Inr (Some cached_data)"
    and "timestamp cached_data = Naive t"
  shows "fst (get_weather svc clk c) =
           Inr \<lparr>success = True, data = Some cached_data,
                message = ''Weather data for '' @ c @ '' (cached)'',
                cached = True,
                cache_age_minutes = Some (total_seconds (utcnow clk - t) / 60)\<rparr>
       \<and> snd (get_weather svc clk c) =
           (case svc_log_weather_event svc
                   \<lparr>log_city = c, log_s3_path = ''cached'',
                    log_response_time_ms = response_time clk,
                    log_cached = True, log_error = None\<rparr> of
              Inr eid \<Rightarrow>
                [Logged \<lparr>log_city = c, log_s3_path = ''cached'',
                         log_response_time_ms = response_time clk,
                         log_cached = True, log_error = None\<rparr> eid]
            | Inl failure \<Rightarrow>
                [Log_failed \<lparr>log_city = c, log_s3_path = ''cached'',
                             log_response_time_ms = response_time clk,
                             log_cached = True, log_error = None\<rparr>
                   (''Failed to log cached event: '' @ str_exn failure)])"
  using assms
  by (simp add: get_weather_def get_weather_try_def try_log_def Let_def split: sum.splits)

theorem cache_hit_response_witness:
  "fst (get_weather (app_services py0 cfg0 (world_of london_ok london_bucket empty_table) log_ok)
          clock0 ''London'') =
     Inr \<lparr>success = True, data = Some london_reading,
          message = ''Weather data for London (cached)'', cached = True,
          cache_age_minutes = Some 2\<rparr>
   \<and> snd (get_weather (app_services py0 cfg0 (world_of london_ok london_bucket empty_table) log_ok)
          clock0 ''London'') =
     [Logged \<lparr>log_city = ''London'', log_s3_path = ''cached'', log_response_time_ms = 250,
              log_cached = True, log_error = None\<rparr>
        ''5b1c9f0e-event'']"
proof -
  let ?svc = "app_services py0 cfg0 (world_of london_ok london_bucket empty_table) log_ok"
  have hit: "svc_get_cached_weather_data ?svc ''London'' = Inr (Some london_reading)"
    by (simp add: app_services_def world_of_def lookup_london)
  have naive: "timestamp london_reading = Naive 600000000"
    by (simp add: london_reading_def)
  have logged: "svc_log_weather_event ?svc = log_ok"
    by (simp add: app_services_def)
  show ?thesis
    using cache_hit_response [OF hit naive, of clock0]
    unfolding logged by (simp add: response_time_def clock0_def total_seconds_def log_ok_def)
qed

text \<open>
  The claim as the specification states it fails for a stored reading whose timestamp
  carries a UTC offset: the lookup finds it, the subtraction raises \<^verbatim>\<open>TypeError\<close>, and the
  request is answered with status 500.
\<close>

theorem aware_timestamp_answers_500:
  "svc_get_cached_weather_data
     (app_services py0 cfg0 (world_of london_ok aware_bucket empty_table) log_ok) ''London'' =
     Inr (Some aware_reading)
   \<and> fst (get_weather (app_services py0 cfg0 (world_of london_ok aware_bucket empty_table) log_ok)
          clock0 ''London'') =
     Inl (HTTPException 500 ''Internal server error'')"
proof -
  let ?svc = "app_services py0 cfg0 (world_of london_ok aware_bucket empty_table) log_ok"
  have hit: "svc_get_cached_weather_data ?svc ''London'' = Inr (Some aware_reading)"
    by (simp add: app_services_def world_of_def lookup_aware)
  have aware: "timestamp aware_reading = Aware 600000000 0"
    by (simp add: aware_reading_def)
  show ?thesis
    using hit aware by (simp add: get_weather_def get_weather_try_def)
qed

section \<open>Properties of the storage service\<close>

lemma max_from_ge: "key best \<le> key (max_from key best xs)"
proof (induction xs arbitrary: best)
  case Nil
  show ?case by simp
next
  case (Cons x xs)
  show ?case
  proof (cases "key best < key x")
    case True
    with Cons.IH [of x] show ?thesis by simp
  next
    case False
    with Cons.IH [of best] show ?thesis by simp
  qed
qed

lemma max_from_split:
  "\<exists>pre post. best # xs = pre @ max_from key best xs # post
     \<and> (\<forall>x\<in>set pre. key x < key (max_from key best xs))
     \<and> (\<forall>x\<in>set post. key x \<le> key (max_from key best xs))"
proof (induction xs arbitrary: best)
  case Nil
  have "[best] = [] @ best # []" by simp
  then show ?case by force
next
  case (Cons x xs)
  show ?case
  proof (cases "key best < key x")
    case True
    then have m: "max_from key best (x # xs) = max_from key x xs" by simp
    from Cons.IH [of x] obtain pre post where
      split: "x # xs = pre @ max_from key x xs # post"
      and lt: "\<forall>y\<in>set pre. key y < key (max_from key x xs)"
      and le: "\<forall>y\<in>set post. key y \<le> key (max_from key x xs)"
      by blast
    have "key best < key (max_from key x xs)"
      using True max_from_ge [of key x xs] by simp
    with lt have "\<forall>y\<in>set (best # pre). key y < key (max_from key x xs)" by simp
    moreover have "best # x # xs = (best # pre) @ max_from key x xs # post"
      using split by simp
    ultimately show ?thesis unfolding m using le by blast
  next
    case False
    then have m: "max_from key best (x # xs) = max_from key best xs" by simp
    from Cons.IH [of best] obtain pre post where
      split: "best # xs = pre @ max_from key best xs # post"
      and lt: "\<forall>y\<in>set pre. key y < key (max_from key best xs)"
      and le: "\<forall>y\<in>set post. key y \<le> key (max_from key best xs)"
      by blast
    show ?thesis
    proof (cases pre)
      case Nil
      with split have b: "max_from key best xs = best" and post: "post = xs" by auto
      have "\<forall>y\<in>set (x # xs). key y \<le> key best" using False le b post by auto
      moreover have "best # x # xs = [] @ best # (x # xs)" by simp
      ultimately show ?thesis unfolding m b by force
    next
      case (Cons p ps)
      with split have p: "p = best" and xs: "xs = ps @ max_from key best xs # post" by auto
      have "key best < key (max_from key best xs)" using lt Cons p by simp
      then have "\<forall>y\<in>set (best # x # ps). key y < key (max_from key best xs)"
        using lt Cons False by auto
      moreover have "best # x # xs = (best # x # ps) @ max_from key best xs # post"
        using xs by simp
      ultimately show ?thesis unfolding m using le by blast
    qed
  qed
qed

lemma py_max_split:
  assumes "xs \<noteq> []"
  shows "\<exists>pre m post. py_max key xs = Inr m \<and> xs = pre @ m # post
     \<and> (\<forall>x\<in>set pre. key x < key m) \<and> (\<forall>x\<in>set post. key x \<le> key m)"
proof -
  from assms obtain y ys where xs: "xs = y # ys" by (cases xs) auto
  from max_from_split [of y ys key] show ?thesis
    unfolding xs py_max_def by auto
qed

lemma get_cached_unfold:
  "get_cached_weather_data_try py cfg st now c =
     (case list_error st of
        Some e \<Rightarrow> Inl e
      | None \<Rightarrow>
          if valid_objects_of py cfg st now c = [] then Inr None
          else and_then (py_max LastModified (valid_objects_of py cfg st now c)) (\<lambda>latest_obj.
               and_then (get_object st (Key latest_obj)) (\<lambda>content.
               and_then (read_weather_data py content) (\<lambda>weather_data.
                 Inr (Some weather_data)))))"
  by (auto simp: get_cached_weather_data_try_def list_objects_v2_def valid_objects_of_def
      fresh_objects_def and_then_def Let_def filter_empty_conv split: option.splits)

text \<open>
  Claim C5. The entries \<^verbatim>\<open>get_cached_weather_data\<close> considers are exactly the stored
  objects whose key starts with \<^verbatim>\<open>weather_data/\<close>, the city in lower case with every space
  replaced by an underscore, and an underscore, and whose \<^verbatim>\<open>LastModified\<close> is less than
  \<^verbatim>\<open>cache_expiry_minutes\<close> before the current time. With none of them the result is
  \<^verbatim>\<open>None\<close>. Otherwise the object read is one of greatest
  \<^verbatim>\<open>LastModified\<close>, and among those of equal \<^verbatim>\<open>LastModified\<close> the first in the listing;
  its deserialized body is the result.
\<close>

theorem get_cached_returns_latest_fresh:
  "(\<forall>obj. obj \<in> set (valid_objects_of py cfg st now c) \<longleftrightarrow>
       obj \<in> set (objects st)
       \<and> prefix (''weather_data/''
                   @ map (\<lambda>ch. if ch = CHR '' '' then CHR ''_'' else ch) (str_lower py c)
                   @ ''_'') (Key obj)
       \<and> now - LastModified obj < cache_expiry_minutes cfg * 60000000)
   \<and> (valid_objects_of py cfg st now c = [] \<longrightarrow>
        get_cached_weather_data py cfg st now c = Inr None)
   \<and> (list_error st = None \<and> valid_objects_of py cfg st now c \<noteq> [] \<longrightarrow>
        (\<exists>pre latest post.
           valid_objects_of py cfg st now c = pre @ latest # post
           \<and> (\<forall>obj\<in>set pre. LastModified obj < LastModified latest)
           \<and> (\<forall>obj\<in>set post. LastModified obj \<le> LastModified latest)
           \<and> get_cached_weather_data py cfg st now c =
               (case and_then (get_object st (Key latest)) (read_weather_data py) of
                  Inl e \<Rightarrow> Inr None
                | Inr w \<Rightarrow> Inr (Some w))))"
proof (intro conjI impI allI)
  fix obj
  show "obj \<in> set (valid_objects_of py cfg st now c) \<longleftrightarrow>
       obj \<in> set (objects st)
       \<and> prefix (''weather_data/''
                   @ map (\<lambda>ch. if ch = CHR '' '' then CHR ''_'' else ch) (str_lower py c)
                   @ ''_'') (Key obj)
       \<and> now - LastModified obj < cache_expiry_minutes cfg * 60000000"
    by (auto simp: valid_objects_of_def fresh_objects_def city_prefix_def normalize_city_def
        timedelta_minutes_def)
next
  assume "valid_objects_of py cfg st now c = []"
  then show "get_cached_weather_data py cfg st now c = Inr None"
    by (simp add: get_cached_weather_data_def get_cached_unfold split: option.splits)
next
  assume a: "list_error st = None \<and> valid_objects_of py cfg st now c \<noteq> []"
  then obtain pre latest post where
    m: "py_max LastModified (valid_objects_of py cfg st now c) = Inr latest"
    and split: "valid_objects_of py cfg st now c = pre @ latest # post"
    and lt: "\<forall>obj\<in>set pre. LastModified obj < LastModified latest"
    and le: "\<forall>obj\<in>set post. LastModified obj \<le> LastModified latest"
    using py_max_split [of "valid_objects_of py cfg st now c" LastModified] by blast
  have "get_cached_weather_data py cfg st now c =
          (case and_then (get_object st (Key latest)) (read_weather_data py) of
             Inl e \<Rightarrow> Inr None
           | Inr w \<Rightarrow> Inr (Some w))"
    using a m
    by (simp add: get_cached_weather_data_def get_cached_unfold and_then_def split: sum.splits)
  with split lt le show "\<exists>pre latest post.
           valid_objects_of py cfg st now c = pre @ latest # post
           \<and> (\<forall>obj\<in>set pre. LastModified obj < LastModified latest)
           \<and> (\<forall>obj\<in>set post. LastModified obj \<le> LastModified latest)
           \<and> get_cached_weather_data py cfg st now c =
               (case and_then (get_object st (Key latest)) (read_weather_data py) of
                  Inl e \<Rightarrow> Inr None
                | Inr w \<Rightarrow> Inr (Some w))"
    by blast
qed

theorem get_cached_returns_latest_fresh_witness:
  "list_error london_bucket = None
   \<and> city_prefix py0 ''London'' = ''weather_data/london_''
   \<and> city_prefix py0 ''New York'' = ''weather_data/new_york_''
   \<and> valid_objects_of py0 cfg0 london_bucket 720000000 ''London'' =
       [\<lparr>Key = ''weather_data/london_19700101_000800.json'', LastModified = 482000000,
         Body = ''{}'', Metadata = []\<rparr>,
        \<lparr>Key = ''weather_data/london_19700101_001000.json'', LastModified = 602000000,
         Body = london_json, Metadata = []\<rparr>]
   \<and> get_cached_weather_data py0 cfg0 london_bucket 720000000 ''London'' =
       Inr (Some london_reading)"
  using get_cached_returns_latest_fresh
    [where py=py0 and cfg=cfg0 and st=london_bucket and now=720000000 and c="''London''"]
  by (simp add: valid_london lookup_london prefix_london prefix_new_york)
     (simp add: london_bucket_def)

text \<open>
  Claim C10. \<^verbatim>\<open>get_cached_weather_data\<close> never raises. When the listing fails, when the
  retrieval of the chosen object fails, or when its body does not deserialize, the result
  is \<^verbatim>\<open>None\<close>; and \<^verbatim>\<open>get_weather\<close> then does exactly what it does on a cache miss, which
  starts with the provider fetch.
\<close>

theorem cache_lookup_failure_is_a_miss:
  "(\<exists>found. get_cached_weather_data py cfg st now c = Inr found)
   \<and> (get_cached_weather_data_try py cfg st now c = Inl e \<longrightarrow>
        get_cached_weather_data py cfg st now c = Inr None)
   \<and> (list_objects_v2 st (city_prefix py c) = Inl e \<longrightarrow>
        get_cached_weather_data py cfg st now c = Inr None)
   \<and> (list_error st = None \<and> py_max LastModified (valid_objects_of py cfg st now c) = Inr latest
        \<and> get_object st (Key latest) = Inl e \<longrightarrow>
        get_cached_weather_data py cfg st now c = Inr None)
   \<and> (list_error st = None \<and> py_max LastModified (valid_objects_of py cfg st now c) = Inr latest
        \<and> get_object st (Key latest) = Inr body \<and> read_weather_data py body = Inl e \<longrightarrow>
        get_cached_weather_data py cfg st now c = Inr None)
   \<and> (get_cached_weather_data_try py cfg st now c = Inl e
        \<and> svc_get_cached_weather_data svc = get_cached_weather_data py cfg st now \<longrightarrow>
        get_weather svc clk c =
        get_weather (svc\<lparr>svc_get_cached_weather_data := (\<lambda>x. Inr None)\<rparr>) clk c)"
proof (intro conjI impI)
  show "\<exists>found. get_cached_weather_data py cfg st now c = Inr found"
    by (simp add: get_cached_weather_data_def split: sum.splits)
next
  assume "get_cached_weather_data_try py cfg st now c = Inl e"
  then show "get_cached_weather_data py cfg st now c = Inr None"
    by (simp add: get_cached_weather_data_def)
next
  assume "list_objects_v2 st (city_prefix py c) = Inl e"
  then show "get_cached_weather_data py cfg st now c = Inr None"
    by (simp add: get_cached_weather_data_def get_cached_weather_data_try_def and_then_def Let_def)
next
  assume "list_error st = None \<and> py_max LastModified (valid_objects_of py cfg st now c) = Inr latest
        \<and> get_object st (Key latest) = Inl e"
  then show "get_cached_weather_data py cfg st now c = Inr None"
    by (simp add: get_cached_weather_data_def get_cached_unfold and_then_def)
next
  assume "list_error st = None \<and> py_max LastModified (valid_objects_of py cfg st now c) = Inr latest
        \<and> get_object st (Key latest) = Inr body \<and> read_weather_data py body = Inl e"
  then show "get_cached_weather_data py cfg st now c = Inr None"
    by (simp add: get_cached_weather_data_def get_cached_unfold and_then_def)
next
  assume a: "get_cached_weather_data_try py cfg st now c = Inl e
        \<and> svc_get_cached_weather_data svc = get_cached_weather_data py cfg st now"
  then have miss: "svc_get_cached_weather_data svc c = Inr None"
    by (simp add: get_cached_weather_data_def)
  have "get_weather_try svc clk c =
        get_weather_try (svc\<lparr>svc_get_cached_weather_data := (\<lambda>x. Inr None)\<rparr>) clk c"
    using miss by (simp add: get_weather_try_def try_log_def Let_def split: sum.splits)
  moreover have "try_log (svc\<lparr>svc_get_cached_weather_data := (\<lambda>x. Inr None)\<rparr>) call w =
        try_log svc call w" for call w
    by (simp add: try_log_def)
  ultimately show "get_weather svc clk c =
        get_weather (svc\<lparr>svc_get_cached_weather_data := (\<lambda>x. Inr None)\<rparr>) clk c"
    by (simp add: get_weather_def split: prod.splits sum.splits)
qed

theorem cache_lookup_failure_is_a_miss_witness:
  "get_cached_weather_data_try py0 cfg0 broken_bucket 720000000 ''London'' =
     Inl (ClientError ''connection refused'')
   \<and> get_cached_weather_data py0 cfg0 broken_bucket 720000000 ''London'' = Inr None
   \<and> get_weather (app_services py0 cfg0 (world_of london_ok broken_bucket empty_table) log_ok)
        clock0 ''London'' =
      get_weather
        ((app_services py0 cfg0 (world_of london_ok broken_bucket empty_table) log_ok)
           \<lparr>svc_get_cached_weather_data := (\<lambda>x. Inr None)\<rparr>)
        clock0 ''London''
   \<and> fst (get_weather (app_services py0 cfg0 (world_of london_ok broken_bucket empty_table) log_ok)
        clock0 ''London'') =
      Inr \<lparr>success = True, data = Some london_reading,
           message = ''Current weather data for London'', cached = False,
           cache_age_minutes = None\<rparr>"
proof -
  let ?svc = "app_services py0 cfg0 (world_of london_ok broken_bucket empty_table) log_ok"
  have failed: "get_cached_weather_data_try py0 cfg0 broken_bucket 720000000 ''London'' =
     Inl (ClientError ''connection refused'')"
    by (simp add: get_cached_weather_data_try_def list_objects_v2_def broken_bucket_def
        and_then_def)
  have svc: "svc_get_cached_weather_data ?svc =
     get_cached_weather_data py0 cfg0 broken_bucket 720000000"
    by (simp add: app_services_def world_of_def)
  have fetched: "svc_get_weather_data ?svc ''London'' = Inr london_reading"
    by (simp add: app_services_def world_of_def london_ok_def fetch_london)
  note w = cache_lookup_failure_is_a_miss
    [of py0 cfg0 broken_bucket 720000000 "''London''" "ClientError ''connection refused''"
        _ _ ?svc clock0]
  from w failed svc have miss: "get_cached_weather_data py0 cfg0 broken_bucket 720000000 ''London'' = Inr None"
    and same: "get_weather ?svc clock0 ''London'' =
      get_weather (?svc\<lparr>svc_get_cached_weather_data := (\<lambda>x. Inr None)\<rparr>) clock0 ''London''"
    by blast+
  have "fst (get_weather (?svc\<lparr>svc_get_cached_weather_data := (\<lambda>x. Inr None)\<rparr>) clock0 ''London'') =
      Inr \<lparr>success = True, data = Some london_reading,
           message = ''Current weather data for London'', cached = False,
           cache_age_minutes = None\<rparr>"
    using fetched
    by (simp add: get_weather_def get_weather_try_def Let_def split: sum.splits)
  with failed miss same show ?thesis by simp
qed

lemma find_insort_key_new:
  assumes "P x" and "\<forall>y\<in>set xs. \<not> P y"
  shows "find P (insort_key f x xs) = Some x"
  using assms by (induction xs) auto

lemma get_object_after_put:
  assumes "put_error st = None" and "get_error st = None"
  shows "get_object (snd (put_object st stored_at k body meta)) k = Inr body"
proof -
  let ?new = "\<lparr>Key = k, LastModified = stored_at, Body = body, Metadata = meta\<rparr>"
  have "find (\<lambda>obj. Key obj = k)
          (insort_key Key ?new (filter (\<lambda>obj. Key obj \<noteq> k) (objects st))) = Some ?new"
    by (rule find_insort_key_new) auto
  with assms show ?thesis
    by (simp add: put_object_def get_object_def)
qed

lemma datetimes_to_isoformat_model_dump:
  "datetimes_to_isoformat py (WeatherData_model_dump py w) = WeatherData_model_dump py w"
  by (simp add: datetimes_to_isoformat_def WeatherData_model_dump_def serialize_optional_def
      split: option.splits)

lemma optional_datetime_read_back:
  assumes "rel_option (\<lambda>t u. lax_datetime py (PStr (isoformat py t)) = Inr u) v v'"
  shows "(case serialize_optional py v of
            PNone \<Rightarrow> Inr None
          | x \<Rightarrow> and_then (validate_datetime py x) (\<lambda>y. Inr (Some y))) = Inr v'"
  using assms
  by (cases v; cases v') (simp_all add: serialize_optional_def validate_datetime_def and_then_def)

lemma WeatherData_init_model_dump:
  assumes ts: "lax_datetime py (PStr (isoformat py (timestamp w))) = Inr t'"
    and sr: "rel_option (\<lambda>t u. lax_datetime py (PStr (isoformat py t)) = Inr u) (sunrise w) sr'"
    and ss: "rel_option (\<lambda>t u. lax_datetime py (PStr (isoformat py t)) = Inr u) (sunset w) ss'"
  shows "WeatherData_init py (WeatherData_model_dump py w) =
           Inr (w\<lparr>timestamp := t', sunrise := sr', sunset := ss'\<rparr>)"
proof -
  have o1: "optional (WeatherData_model_dump py w) ''sunrise'' (validate_datetime py) = Inr sr'"
    using optional_datetime_read_back [OF sr]
    by (simp add: optional_def WeatherData_model_dump_def split: pyval.splits)
  have o2: "optional (WeatherData_model_dump py w) ''sunset'' (validate_datetime py) = Inr ss'"
    using optional_datetime_read_back [OF ss]
    by (simp add: optional_def WeatherData_model_dump_def split: pyval.splits)
  have r: "required (WeatherData_model_dump py w) ''timestamp'' (validate_datetime py) = Inr t'"
    using ts by (simp add: required_def WeatherData_model_dump_def validate_datetime_def)
  show ?thesis
    unfolding WeatherData_init_def o1 o2 r
    by (simp add: required_def WeatherData_model_dump_def validate_str_def validate_float_def
        validate_int_def and_then_def)
qed

text \<open>
  Claim C8. A reading written by \<^verbatim>\<open>store_weather_data\<close> and read back from the object
  under its key is the same in every field that is not a timestamp; the timestamp
  fields are what the datetime validator reads from their ISO text. The JSON library is
  taken to read back the document it wrote.
\<close>

theorem stored_reading_reads_back:
  assumes "put_error st = None" and "get_error st = None"
    and js: "json_loads py (json_dumps py (PDict (WeatherData_model_dump py w))) =
             Inr (PDict (WeatherData_model_dump py w))"
    and ts: "lax_datetime py (PStr (isoformat py (timestamp w))) = Inr t'"
    and sr: "rel_option (\<lambda>t u. lax_datetime py (PStr (isoformat py t)) = Inr u) (sunrise w) sr'"
    and ss: "rel_option (\<lambda>t u. lax_datetime py (PStr (isoformat py t)) = Inr u) (sunset w) ss'"
  shows "fst (store_weather_data py cfg st stored_at w) =
           Inr (''s3://'' @ s3_bucket_name cfg @ ''/'' @ generate_file_key py (city w) (timestamp w))
       \<and> and_then (get_object (snd (store_weather_data py cfg st stored_at w))
                     (generate_file_key py (city w) (timestamp w)))
                   (read_weather_data py) =
           Inr (w\<lparr>timestamp := t', sunrise := sr', sunset := ss'\<rparr>)"
proof -
  let ?k = "generate_file_key py (city w) (timestamp w)"
  let ?body = "json_dumps py (PDict (WeatherData_model_dump py w))"
  let ?meta = "[(''city'', city w), (''timestamp'', isoformat py (timestamp w)),
                (''cached'', ''false'')]"
  have store: "store_weather_data py cfg st stored_at w =
        (Inr (''s3://'' @ s3_bucket_name cfg @ ''/'' @ ?k),
         snd (put_object st stored_at ?k ?body ?meta))"
    using assms(1)
    by (simp add: store_weather_data_def put_object_def datetimes_to_isoformat_model_dump Let_def)
  have "get_object (snd (put_object st stored_at ?k ?body ?meta)) ?k = Inr ?body"
    using assms(1,2) by (rule get_object_after_put)
  moreover have "read_weather_data py ?body = Inr (w\<lparr>timestamp := t', sunrise := sr', sunset := ss'\<rparr>)"
    using js WeatherData_init_model_dump [OF ts sr ss]
    by (simp add: read_weather_data_def and_then_def)
  ultimately show ?thesis unfolding store by (simp add: and_then_def)
qed

theorem stored_reading_reads_back_witness:
  "fst (store_weather_data py0 cfg0 empty_bucket 602000000 london_reading) =
     Inr ''s3://weather-data-bucket/weather_data/london_19700101_001000.json''
   \<and> and_then
        (get_object (snd (store_weather_data py0 cfg0 empty_bucket 602000000 london_reading))
           ''weather_data/london_19700101_001000.json'')
        (read_weather_data py0) =
      Inr london_reading"
proof -
  have p: "put_error empty_bucket = None" and g: "get_error empty_bucket = None"
    by (simp_all add: empty_bucket_def)
  have js: "json_loads py0 (json_dumps py0 (PDict (WeatherData_model_dump py0 london_reading))) =
             Inr (PDict (WeatherData_model_dump py0 london_reading))"
    by (simp add: model_dump_london) (simp add: py0_def)
  have ts: "lax_datetime py0 (PStr (isoformat py0 (timestamp london_reading))) =
              Inr (Naive 600000000)"
    by (simp add: py0_def london_reading_def parse_iso0_def parse_datetime0_def)
  have sr: "rel_option (\<lambda>t u. lax_datetime py0 (PStr (isoformat py0 t)) = Inr u)
              (sunrise london_reading) (Some (Naive 21600000000))"
    by (simp add: py0_def london_reading_def parse_iso0_def parse_datetime0_def)
  have ss: "rel_option (\<lambda>t u. lax_datetime py0 (PStr (isoformat py0 t)) = Inr u)
              (sunset london_reading) None"
    by (simp add: london_reading_def)
  have k: "generate_file_key py0 (city london_reading) (timestamp london_reading) =
             ''weather_data/london_19700101_001000.json''"
    by (simp add: generate_file_key_def normalize_city_def lower_char_def py0_def
        london_reading_def)
  have same: "london_reading\<lparr>timestamp := Naive 600000000,
                 sunrise := Some (Naive 21600000000), sunset := None\<rparr>
              = london_reading"
    by (simp add: london_reading_def)
  show ?thesis
    using stored_reading_reads_back [OF p g js ts sr ss, of cfg0 602000000]
    unfolding k same by (simp add: cfg0_def)
qed

section \<open>Properties of the statistics and of the event log\<close>

lemma round2_zero: "round2 0 = 0"
  by (simp add: round2_def round_half_even_def)

text \<open>
  Claim C9. With no events \<^verbatim>\<open>get_stats\<close> answers with a total of 0, both rates 0 and a
  mean response time of 0. For any list of events the computation returns a result (no
  division raises), and the two rates and the mean are 0 whenever the number of events,
  their divisor, is 0.
\<close>

theorem stats_without_events:
  "(svc_get_recent_events svc 100 = Inr [] \<and> svc_list_recent_files svc 24 = Inr files \<longrightarrow>
      get_stats svc =
        Inr \<lparr>total_requests_24h = 0, cached_requests = 0, cache_hit_rate = 0,
             error_requests = 0, error_rate = 0, avg_response_time_ms = 0,
             files_stored_24h = int (length files)\<rparr>)
   \<and> (\<exists>result. compute_stats events files = Inr result
        \<and> (total_requests_24h result = 0 \<longrightarrow>
             cache_hit_rate result = 0 \<and> error_rate result = 0
             \<and> avg_response_time_ms result = 0))"
  by (simp add: get_stats_def compute_stats_def and_then_def py_truediv_def round2_zero Let_def)

theorem stats_without_events_witness:
  "get_stats (app_services py0 cfg0 (world_of london_ok empty_bucket empty_table) log_ok) =
     Inr \<lparr>total_requests_24h = 0, cached_requests = 0, cache_hit_rate = 0,
          error_requests = 0, error_rate = 0, avg_response_time_ms = 0,
          files_stored_24h = 0\<rparr>
   \<and> compute_stats [] [] =
     Inr \<lparr>total_requests_24h = 0, cached_requests = 0, cache_hit_rate = 0,
          error_requests = 0, error_rate = 0, avg_response_time_ms = 0,
          files_stored_24h = 0\<rparr>"
proof -
  let ?svc = "app_services py0 cfg0 (world_of london_ok empty_bucket empty_table) log_ok"
  have ev: "svc_get_recent_events ?svc 100 = Inr []"
    by (simp add: app_services_def world_of_def get_recent_events_def get_recent_events_try_def
        scan_def empty_table_def and_then_def sort_latest_first_def)
  have fl: "svc_list_recent_files ?svc 24 = Inr []"
    by (simp add: app_services_def world_of_def list_recent_files_def list_objects_v2_def
        empty_bucket_def and_then_def)
  from stats_without_events [of ?svc "[]" "[]"] ev fl
  have "get_stats ?svc =
     Inr \<lparr>total_requests_24h = 0, cached_requests = 0, cache_hit_rate = 0,
          error_requests = 0, error_rate = 0, avg_response_time_ms = 0,
          files_stored_24h = 0\<rparr>"
    by simp
  moreover have "compute_stats [] [] =
     Inr \<lparr>total_requests_24h = 0, cached_requests = 0, cache_hit_rate = 0,
          error_requests = 0, error_rate = 0, avg_response_time_ms = 0,
          files_stored_24h = 0\<rparr>"
    by (simp add: compute_stats_def and_then_def round2_zero)
  ultimately show ?thesis by simp
qed






lemma naive_minus_not_HTTPException:
  "naive_minus now t \<noteq> Inl (HTTPException st d)"
  by (cases t) simp_all

text \<open>
  Claim C7, as amended. Every failure of \<^verbatim>\<open>get_weather\<close> is an \<^verbatim>\<open>HTTPException\<close>; its 503
  and 500 details are the two fixed texts, whatever the underlying exception was, and so
  is the detail of a failure of \<^verbatim>\<open>get_stats\<close>. The response of the global exception
  handler has status 500 and the fixed message.
\<close>

theorem failure_details_are_fixed:
  "(fst (get_weather svc clk c) = Inl exc \<longrightarrow> isinstance_HTTPException exc)
   \<and> (fst (get_weather svc clk c) = Inl (HTTPException st d)
        \<and> (\<forall>e. svc_get_cached_weather_data svc c = Inl e \<longrightarrow> \<not> isinstance_HTTPException e)
        \<and> st \<noteq> 404 \<longrightarrow>
        (st = 503 \<and> d = ''Weather service temporarily unavailable'')
        \<or> (st = 500 \<and> d = ''Internal server error''))
   \<and> (get_stats svc = Inl exc \<longrightarrow> exc = HTTPException 500 ''Failed to retrieve statistics'')
   \<and> response_status (global_exception_handler exc) = 500
   \<and> error_message (content (global_exception_handler exc)) = ''Internal server error''"
proof (intro conjI impI)
  assume "fst (get_weather svc clk c) = Inl exc"
  then show "isinstance_HTTPException exc"
    by (cases "get_weather_try svc clk c")
       (auto simp: get_weather_def split: sum.splits if_splits)
next
  assume a: "fst (get_weather svc clk c) = Inl (HTTPException st d)
        \<and> (\<forall>e. svc_get_cached_weather_data svc c = Inl e \<longrightarrow> \<not> isinstance_HTTPException e)
        \<and> st \<noteq> 404"
  show "(st = 503 \<and> d = ''Weather service temporarily unavailable'')
        \<or> (st = 500 \<and> d = ''Internal server error'')"
  proof (cases "fst (get_weather_try svc clk c)")
    case (Inr r)
    with a show ?thesis
      by (cases "get_weather_try svc clk c") (simp add: get_weather_def)
  next
    case (Inl e)
    show ?thesis
    proof (cases "isinstance_HTTPException e")
      case False
      with Inl a show ?thesis
        by (cases "get_weather_try svc clk c") (auto simp: get_weather_def)
    next
      case True
      with Inl a have e: "e = HTTPException st d"
        by (cases "get_weather_try svc clk c") (auto simp: get_weather_def)
      from Inl a show ?thesis unfolding e
        by (auto simp: get_weather_try_def Let_def naive_minus_not_HTTPException
            split: sum.splits option.splits if_splits)
    qed
  qed
next
  assume "get_stats svc = Inl exc"
  then show "exc = HTTPException 500 ''Failed to retrieve statistics''"
    by (auto simp: get_stats_def split: sum.splits)
qed (simp_all add: global_exception_handler_def)

theorem failure_details_are_fixed_witness:
  "fst (get_weather (app_services py0 cfg0 (world_of provider_down empty_bucket empty_table) log_ok)
          clock0 ''London'') =
     Inl (HTTPException 503 ''Weather service temporarily unavailable'')
   \<and> get_stats ((app_services py0 cfg0 (world_of provider_down empty_bucket empty_table) log_ok)
        \<lparr>svc_get_recent_events := (\<lambda>n. Inl (OtherException ''table is gone''))\<rparr>) =
     Inl (HTTPException 500 ''Failed to retrieve statistics'')"
proof -
  let ?svc = "app_services py0 cfg0 (world_of provider_down empty_bucket empty_table) log_ok"
  let ?svc' = "?svc\<lparr>svc_get_recent_events := (\<lambda>n. Inl (OtherException ''table is gone''))\<rparr>"
  have miss: "svc_get_cached_weather_data ?svc ''London'' = Inr None"
    by (simp add: app_services_def world_of_def lookup_empty)
  have down: "svc_get_weather_data ?svc ''London'' = Inl (HTTPStatusError 500 ''status error'')"
    by (simp add: app_services_def world_of_def provider_down_def get_weather_data_def
        get_weather_data_try_def raise_for_status_def and_then_def)
  obtain st d where out: "fst (get_weather ?svc clock0 ''London'') = Inl (HTTPException st d)"
    and st: "st \<noteq> 404"
    using miss down
    by (simp add: get_weather_def get_weather_try_def Let_def)
  have nocache: "\<forall>e. svc_get_cached_weather_data ?svc ''London'' = Inl e \<longrightarrow> \<not> isinstance_HTTPException e"
    using miss by simp
  have stats: "\<exists>exc. get_stats ?svc' = Inl exc"
    by (simp add: get_stats_def and_then_def)
  from failure_details_are_fixed [where svc="?svc" and clk=clock0 and c="''London''" and st=st and d=d] out st nocache
  have "(st = 503 \<and> d = ''Weather service temporarily unavailable'')
        \<or> (st = 500 \<and> d = ''Internal server error'')"
    by blast
  moreover have "st \<noteq> 500"
    using out miss down by (simp add: get_weather_def get_weather_try_def Let_def)
  ultimately have one: "fst (get_weather ?svc clock0 ''London'') =
     Inl (HTTPException 503 ''Weather service temporarily unavailable'')"
    using out by simp
  from stats obtain exc where e: "get_stats ?svc' = Inl exc" by blast
  with failure_details_are_fixed [where svc="?svc'" and exc=exc] 
  have "get_stats ?svc' = Inl (HTTPException 500 ''Failed to retrieve statistics'')"
    by simp
  with one show ?thesis by simp
qed

text \<open>
  The response of the global exception handler also has a \<^verbatim>\<open>details\<close> field, and that
  field shows the caller the text of the exception it handled.
\<close>

theorem global_handler_exposes_exception_text:
  "details (content (global_exception_handler
      (OtherException ''could not connect to 10.0.0.5:9000 as minioadmin''))) =
     Some [(''error'', ''could not connect to 10.0.0.5:9000 as minioadmin'')]"
  by (simp add: global_exception_handler_def)

end
